theory Spec2Isabelle
  imports Complex_Main
begin

section \<open>Values of the program\<close>

text \<open>
  The application (\<^verbatim>\<open>app.py\<close>) is a Flask program around two functions,
  \<^verbatim>\<open>generate_demo_data\<close> and \<^verbatim>\<open>get_trends_data\<close>, and two handlers,
  \<^verbatim>\<open>index\<close> and \<^verbatim>\<open>analyze\<close>. Exceptions are values: a computation that
  may raise returns \<open>exn + 'a\<close>, with \<open>Inl\<close> the raised exception. Only subclasses of
  Python's \<^verbatim>\<open>Exception\<close> are modelled (what \<^verbatim>\<open>except Exception\<close> catches).
  A \<^verbatim>\<open>print\<close> can raise too (the lines printed carry emoji, which a console of
  another encoding refuses): the fetcher is given twice, as \<open>get_trends_data\<close> on a
  console that takes every line, and as \<open>get_trends_data_logged\<close> with the console as
  a parameter. The handlers are modelled on a console that takes every line.
\<close>

datatype exn =
    KeyError string
  | ValueError string
  | TypeError string
  | AttributeError string
  | OSError string
  | ProviderError string
  | UnicodeEncodeError string

text \<open>\<^verbatim>\<open>str(e)\<close>: the message of the exception.\<close>

fun str_exn :: "exn \<Rightarrow> string" where
  "str_exn (KeyError m) = m"
| "str_exn (ValueError m) = m"
| "str_exn (TypeError m) = m"
| "str_exn (AttributeError m) = m"
| "str_exn (OSError m) = m"
| "str_exn (ProviderError m) = m"
| "str_exn (UnicodeEncodeError m) = m"

text \<open>
  Points in time are seconds as \<open>real\<close> numbers (\<^verbatim>\<open>time.time()\<close>, and the
  timestamps of \<^verbatim>\<open>datetime\<close>); the arithmetic of the source on them is taken exact.
\<close>

type_synonym timestamp = real

definition day :: real where
  "day = 86400"

text \<open>\<^verbatim>\<open>timedelta(days=n)\<close>\<close>

definition timedelta_days :: "int \<Rightarrow> real" where
  "timedelta_days n = of_int n * day"

text \<open>\<^verbatim>\<open>d.date()\<close>: the calendar day of a timestamp, as a day number.\<close>

definition date_of :: "timestamp \<Rightarrow> int" where
  "date_of t = \<lfloor>t / day\<rfloor>"

subsection \<open>Data frames\<close>

text \<open>
  A pandas column is either a column of timestamps or a numeric column whose cells may
  be missing (\<open>None\<close> is NaN). A frame has an index, the name of the index, and its
  columns in order; several columns may carry one label.
\<close>

datatype column = DateCol "timestamp list" | NumCol "int option list"

fun col_len :: "column \<Rightarrow> nat" where
  "col_len (DateCol ds) = length ds"
| "col_len (NumCol vs) = length vs"

record frame =
  index_name :: "string option"
  row_index :: column
  columns :: "(string \<times> column) list"

text \<open>\<^verbatim>\<open>data.empty\<close>: one of the two axes has length 0.\<close>

definition frame_empty :: "frame \<Rightarrow> bool" where
  "frame_empty f = (col_len (row_index f) = 0 \<or> columns f = [])"

text \<open>\<^verbatim>\<open>keyword in data.columns\<close>\<close>

definition has_column :: "string \<Rightarrow> frame \<Rightarrow> bool" where
  "has_column k f = (map_of (columns f) k \<noteq> None)"

text \<open>The columns that carry a label, in order.\<close>

definition labelled :: "frame \<Rightarrow> string \<Rightarrow> column list" where
  "labelled f k = map snd (filter (\<lambda>(k', c). k' = k) (columns f))"

text \<open>
  \<^verbatim>\<open>data[keyword]\<close>: the one column of that label, as a series; when several columns
  carry the label, the frame of all of them.
\<close>

datatype selection = Series column | Frame "column list"

definition getitem :: "frame \<Rightarrow> string \<Rightarrow> exn + selection" where
  "getitem f k = (case labelled f k of
                    [] \<Rightarrow> Inl (KeyError k)
                  | [c] \<Rightarrow> Inr (Series c)
                  | c # c' # cs \<Rightarrow> Inr (Frame (c # c' # cs)))"

text \<open>\<^verbatim>\<open>.sum()\<close> of a column: missing cells are skipped; timestamps cannot be summed.\<close>

fun cell_value :: "int option \<Rightarrow> int" where
  "cell_value None = 0"
| "cell_value (Some v) = v"

fun col_sum :: "column \<Rightarrow> exn + int" where
  "col_sum (NumCol vs) = Inr (sum_list (map cell_value vs))"
| "col_sum (DateCol ds) = Inl (TypeError ''datetime64 type does not support sum operations'')"

text \<open>
  A Python dict keeps one value per key: storing under a key that is present replaces
  its value in place, storing under a new key appends. A dict display
  \<^verbatim>\<open>{k1: v1, k2: v2}\<close> stores its pairs from left to right.
\<close>

fun dict_set :: "('k \<times> 'v) list \<Rightarrow> 'k \<Rightarrow> 'v \<Rightarrow> ('k \<times> 'v) list" where
  "dict_set [] k v = [(k, v)]"
| "dict_set ((k', v') # d) k v =
     (if k' = k then (k', v) # d else (k', v') # dict_set d k v)"

fun dict_display :: "('k \<times> 'v) list \<Rightarrow> ('k \<times> 'v) list \<Rightarrow> ('k \<times> 'v) list" where
  "dict_display d [] = d"
| "dict_display d ((k, v) # kvs) = dict_display (dict_set d k v) kvs"

text \<open>The default index of a new frame: \<^verbatim>\<open>RangeIndex(n)\<close>.\<close>

definition range_index :: "nat \<Rightarrow> column" where
  "range_index n = NumCol (map (\<lambda>i. Some (int i)) [0..<n])"

text \<open>\<^verbatim>\<open>pd.DataFrame(dict)\<close>: the columns must have one length.\<close>

definition pd_DataFrame :: "(string \<times> column) list \<Rightarrow> exn + frame" where
  "pd_DataFrame d =
     (case d of
        [] \<Rightarrow> Inr \<lparr>index_name = None, row_index = range_index 0, columns = []\<rparr>
      | (k, c) # rest \<Rightarrow>
          if list_all (\<lambda>(k', c'). col_len c' = col_len c) rest
          then Inr \<lparr>index_name = None, row_index = range_index (col_len c), columns = d\<rparr>
          else Inl (ValueError ''All arrays must be of the same length''))"

text \<open>\<^verbatim>\<open>data.set_index(name, inplace=True)\<close>: the column becomes the index and is dropped.\<close>

definition set_index :: "string \<Rightarrow> frame \<Rightarrow> exn + frame" where
  "set_index name f =
     (case map_of (columns f) name of
        None \<Rightarrow> Inl (KeyError name)
      | Some c \<Rightarrow> Inr \<lparr>index_name = Some name, row_index = c,
                       columns = filter (\<lambda>(k, c'). k \<noteq> name) (columns f)\<rparr>)"

text \<open>
  \<^verbatim>\<open>pd.date_range(start=s, end=e, freq='D')\<close>: \<open>s\<close>, \<open>s\<close> + 1 day, ... up to \<open>e\<close>.
\<close>

definition date_range :: "timestamp \<Rightarrow> timestamp \<Rightarrow> timestamp list" where
  "date_range s e =
     (if e < s then []
      else map (\<lambda>k. s + real k * day) [0..<Suc (nat \<lfloor>(e - s) / day\<rfloor>)])"

section \<open>The world outside the program\<close>

text \<open>
  What the program does to the outside is recorded as a trace of events; what the
  outside answers is an oracle over the trace so far: the wall clock, whether the
  provider client can be built, what the provider answers to a query, whether the chart
  file can be written, and the stream behind \<^verbatim>\<open>random\<close>.
\<close>

datatype event =
    Slept real
  | NewClient
  | Queried string string
  | SaveFig string

record env =
  wall :: "event list \<Rightarrow> timestamp"
  client_fails :: "event list \<Rightarrow> exn option"
  provider :: "event list \<Rightarrow> string \<Rightarrow> string \<Rightarrow> exn + frame"
  savefig_fails :: "event list \<Rightarrow> exn option"
  rand_src :: "nat \<Rightarrow> nat"

record chart =
  chart_title :: string
  chart_x :: column
  chart_y :: selection

record world =
  trace :: "event list"
  last_request_time :: timestamp
  rand_pos :: nat
  chart_png :: "chart option"

text \<open>\<^verbatim>\<open>time.time()\<close> and \<^verbatim>\<open>datetime.now()\<close> read the same clock.\<close>

definition time_time :: "env \<Rightarrow> world \<Rightarrow> timestamp" where
  "time_time E w = wall E (trace w)"

definition datetime_now :: "env \<Rightarrow> world \<Rightarrow> timestamp" where
  "datetime_now E w = wall E (trace w)"

definition time_sleep :: "real \<Rightarrow> world \<Rightarrow> world" where
  "time_sleep d w = w\<lparr>trace := trace w @ [Slept d]\<rparr>"

text \<open>\<^verbatim>\<open>random.randint(a, b)\<close>: the next draw, mapped into \<open>a..b\<close>.\<close>

definition random_randint :: "env \<Rightarrow> int \<Rightarrow> int \<Rightarrow> world \<Rightarrow> int \<times> world" where
  "random_randint E a b w =
     (a + int (rand_src E (rand_pos w) mod nat (b - a + 1)),
      w\<lparr>rand_pos := Suc (rand_pos w)\<rparr>)"

section \<open>The synthetic data generator\<close>

definition base_trend :: "int list" where
  "base_trend = [50, 55, 60, 65, 70, 75, 80, 85, 90, 85, 80, 75, 70, 65, 60]"

text \<open>The loop \<^verbatim>\<open>for i in range(len(dates))\<close>, with \<^verbatim>\<open>values\<close> as accumulator.\<close>

fun demo_loop :: "env \<Rightarrow> nat list \<Rightarrow> int list \<Rightarrow> world \<Rightarrow> int list \<times> world" where
  "demo_loop E [] values w = (values, w)"
| "demo_loop E (i # is) values w =
     (let pattern_value = base_trend ! (i mod length base_trend);
          (random_variation, w') = random_randint E (- 10) 10 w;
          value = max 10 (pattern_value + random_variation)
      in demo_loop E is (values @ [value]) w')"

definition generate_demo_data :: "env \<Rightarrow> string \<Rightarrow> world \<Rightarrow> (exn + frame) \<times> world" where
  "generate_demo_data E keyword w =
     (let end_date = datetime_now E w;
          start_date = end_date - timedelta_days 90;
          dates = date_range start_date end_date;
          (values, w') = demo_loop E [0..<length dates] [] w
      in case pd_DataFrame (dict_display []
                 [(''date'', DateCol dates), (keyword, NumCol (map Some values))]) of
           Inl e \<Rightarrow> (Inl e, w')
         | Inr data \<Rightarrow>
             (case set_index ''date'' data of
                Inl e \<Rightarrow> (Inl e, w')
              | Inr data' \<Rightarrow> (Inr data', w')))"

section \<open>The trend fetcher\<close>

definition timeframes :: "string list" where
  "timeframes = [''now 7-d'', ''today 1-m'', ''today 3-m'']"

text \<open>
  The test of line 60,
  \<^verbatim>\<open>not data.empty and keyword in data.columns and data[keyword].sum() > 0\<close>,
  evaluated from left to right; it may raise. When several columns carry the keyword's
  label, \<^verbatim>\<open>data[keyword].sum() > 0\<close> is a series of comparisons, and taking its truth
  value raises.
\<close>

definition accepted :: "string \<Rightarrow> frame \<Rightarrow> exn + bool" where
  "accepted keyword data =
     (if frame_empty data then Inr False
      else if \<not> has_column keyword data then Inr False
      else case getitem data keyword of
             Inl e \<Rightarrow> Inl e
           | Inr (Series c) \<Rightarrow> (case col_sum c of
                                  Inl e \<Rightarrow> Inl e
                                | Inr s \<Rightarrow> Inr (0 < s))
           | Inr (Frame cs) \<Rightarrow>
               Inl (ValueError ''The truth value of a Series is ambiguous''))"

text \<open>
  The loop over the time frames, on a console that takes every line.
  \<^verbatim>\<open>build_payload\<close> and \<^verbatim>\<open>interest_over_time\<close> are one query to the provider;
  an exception of the query or of the test is caught and the loop continues.
\<close>

fun try_timeframes ::
  "env \<Rightarrow> string \<Rightarrow> string list \<Rightarrow> world \<Rightarrow> (frame \<times> string) option \<times> world" where
  "try_timeframes E keyword [] w = (None, w)"
| "try_timeframes E keyword (timeframe # rest) w =
     (let w' = w\<lparr>trace := trace w @ [Queried keyword timeframe]\<rparr>
      in case provider E (trace w) keyword timeframe of
           Inl e \<Rightarrow> try_timeframes E keyword rest w'
         | Inr data \<Rightarrow>
             (case accepted keyword data of
                Inl e \<Rightarrow> try_timeframes E keyword rest w'
              | Inr True \<Rightarrow> (Some (data, timeframe), w')
              | Inr False \<Rightarrow> try_timeframes E keyword rest w'))"

definition demo_label :: string where
  "demo_label = ''demo (last 3 months)''"

text \<open>
  The handler of the outer \<^verbatim>\<open>except Exception\<close> (lines 72 to 76), after its
  print.
\<close>

definition fallback ::
  "env \<Rightarrow> string \<Rightarrow> world \<Rightarrow> (exn + frame \<times> string \<times> bool) \<times> world" where
  "fallback E keyword w =
     (case generate_demo_data E keyword w of
        (Inl e, w') \<Rightarrow> (Inl e, w')
      | (Inr data, w') \<Rightarrow> (Inr (data, demo_label, False), w'))"

text \<open>
  \<^verbatim>\<open>get_trends_data\<close> on a console that takes every line: no print raises, and the
  prints change nothing else. \<open>get_trends_data_logged\<close> below is the function on any
  console.
\<close>

definition get_trends_data ::
  "env \<Rightarrow> string \<Rightarrow> world \<Rightarrow> (exn + frame \<times> string \<times> bool) \<times> world" where
  "get_trends_data E keyword w =
     (let w0 = w\<lparr>trace := trace w @ [NewClient]\<rparr>
      in case client_fails E (trace w) of
           Some e \<Rightarrow> fallback E keyword w0
         | None \<Rightarrow>
             (case try_timeframes E keyword timeframes w0 of
                (Some (data, timeframe), w1) \<Rightarrow> (Inr (data, timeframe, True), w1)
              | (None, w1) \<Rightarrow>
                  (case generate_demo_data E keyword w1 of
                     (Inl e, w2) \<Rightarrow> fallback E keyword w2
                   | (Inr data, w2) \<Rightarrow> (Inr (data, demo_label, False), w2))))"

subsection \<open>The fetcher with its console\<close>

text \<open>
  A console answers each line printed: \<open>None\<close> when it is written, or the exception
  \<^verbatim>\<open>print\<close> raises (a \<^verbatim>\<open>UnicodeEncodeError\<close> where the encoding of the console has
  no emoji, an \<^verbatim>\<open>OSError\<close> where the stream is closed).
\<close>

type_synonym console = "string \<Rightarrow> exn option"

text \<open>
  The lines of \<^verbatim>\<open>get_trends_data\<close>, in UTF-8: line 56; line 61 (U+2705); line 64
  (U+274C); line 68 (U+1F504); line 73 (U+1F4A5).
\<close>

definition trying_message :: "string \<Rightarrow> string" where
  "trying_message timeframe = ''Trying Google Trends with timeframe: '' @ timeframe"

definition success_message :: string where
  "success_message =
     [CHR 0xE2, CHR 0x9C, CHR 0x85] @ '' Successfully got real data from Google Trends''"

definition failed_message :: "string \<Rightarrow> exn \<Rightarrow> string" where
  "failed_message timeframe e =
     [CHR 0xE2, CHR 0x9D, CHR 0x8C] @ '' Google Trends failed for '' @ timeframe @ '': ''
     @ str_exn e"

definition demo_message :: string where
  "demo_message = [CHR 0xF0, CHR 0x9F, CHR 0x94, CHR 0x84] @ '' Using demo data as fallback''"

definition all_failed_message :: "exn \<Rightarrow> string" where
  "all_failed_message e =
     [CHR 0xF0, CHR 0x9F, CHR 0x92, CHR 0xA5] @ '' All Google Trends attempts failed: ''
     @ str_exn e"

text \<open>
  The handler of the inner \<^verbatim>\<open>except Exception\<close> (lines 63 to 65): it prints, and
  the loop continues (\<open>Inr ()\<close>) unless the print raises.
\<close>

definition inner_handler :: "console \<Rightarrow> string \<Rightarrow> exn \<Rightarrow> exn + unit" where
  "inner_handler out timeframe e =
     (case out (failed_message timeframe e) of
        Some e' \<Rightarrow> Inl e'
      | None \<Rightarrow> Inr ())"

text \<open>
  One turn of the loop (lines 55 to 65): \<open>Inr (Some data)\<close> when line 62 returns,
  \<open>Inr None\<close> when the loop goes on, \<open>Inl e\<close> when the inner handler itself raises.
\<close>

definition attempt ::
  "console \<Rightarrow> env \<Rightarrow> string \<Rightarrow> string \<Rightarrow> world \<Rightarrow> (exn + frame option) \<times> world" where
  "attempt out E keyword timeframe w =
     (case out (trying_message timeframe) of
        Some e \<Rightarrow> (map_sum id (\<lambda>u. None) (inner_handler out timeframe e), w)
      | None \<Rightarrow>
          (let w' = w\<lparr>trace := trace w @ [Queried keyword timeframe]\<rparr>
           in case provider E (trace w) keyword timeframe of
                Inl e \<Rightarrow> (map_sum id (\<lambda>u. None) (inner_handler out timeframe e), w')
              | Inr data \<Rightarrow>
                  (case accepted keyword data of
                     Inl e \<Rightarrow> (map_sum id (\<lambda>u. None) (inner_handler out timeframe e), w')
                   | Inr True \<Rightarrow>
                       (case out success_message of
                          Some e \<Rightarrow>
                            (map_sum id (\<lambda>u. None) (inner_handler out timeframe e), w')
                        | None \<Rightarrow> (Inr (Some data), w'))
                   | Inr False \<Rightarrow> (Inr None, w'))))"

fun try_timeframes_logged ::
  "console \<Rightarrow> env \<Rightarrow> string \<Rightarrow> string list \<Rightarrow> world \<Rightarrow>
     (exn + (frame \<times> string) option) \<times> world" where
  "try_timeframes_logged out E keyword [] w = (Inr None, w)"
| "try_timeframes_logged out E keyword (timeframe # rest) w =
     (case attempt out E keyword timeframe w of
        (Inl e, w') \<Rightarrow> (Inl e, w')
      | (Inr (Some data), w') \<Rightarrow> (Inr (Some (data, timeframe)), w')
      | (Inr None, w') \<Rightarrow> try_timeframes_logged out E keyword rest w')"

text \<open>
  The handler of the outer \<^verbatim>\<open>except Exception\<close> (lines 72 to 76), with its print:
  an exception of that print leaves the function.
\<close>

definition outer_handler ::
  "console \<Rightarrow> env \<Rightarrow> string \<Rightarrow> exn \<Rightarrow> world \<Rightarrow> (exn + frame \<times> string \<times> bool) \<times> world" where
  "outer_handler out E keyword e w =
     (case out (all_failed_message e) of
        Some e' \<Rightarrow> (Inl e', w)
      | None \<Rightarrow> fallback E keyword w)"

definition get_trends_data_logged ::
  "console \<Rightarrow> env \<Rightarrow> string \<Rightarrow> world \<Rightarrow> (exn + frame \<times> string \<times> bool) \<times> world" where
  "get_trends_data_logged out E keyword w =
     (let w0 = w\<lparr>trace := trace w @ [NewClient]\<rparr>
      in case client_fails E (trace w) of
           Some e \<Rightarrow> outer_handler out E keyword e w0
         | None \<Rightarrow>
             (case try_timeframes_logged out E keyword timeframes w0 of
                (Inl e, w1) \<Rightarrow> outer_handler out E keyword e w1
              | (Inr (Some (data, timeframe)), w1) \<Rightarrow> (Inr (data, timeframe, True), w1)
              | (Inr None, w1) \<Rightarrow>
                  (case out demo_message of
                     Some e \<Rightarrow> outer_handler out E keyword e w1
                   | None \<Rightarrow>
                       (case generate_demo_data E keyword w1 of
                          (Inl e, w2) \<Rightarrow> outer_handler out E keyword e w2
                        | (Inr data, w2) \<Rightarrow> (Inr (data, demo_label, False), w2)))))"

section \<open>The request handlers\<close>

text \<open>
  A request carries its method and its form fields. \<^verbatim>\<open>request.form.get(k, d)\<close>
  is the first value posted under \<open>k\<close>, or \<open>d\<close>. \<^verbatim>\<open>str.strip()\<close> removes
  leading and trailing white space; strings are the bytes of their UTF-8 encoding
  here, so a white space character is a word of one to three bytes.
\<close>

record request =
  http_method :: string
  form :: "(string \<times> string) list"

definition form_get :: "(string \<times> string) list \<Rightarrow> string \<Rightarrow> string \<Rightarrow> string" where
  "form_get f k d = (case map_of f k of None \<Rightarrow> d | Some v \<Rightarrow> v)"

text \<open>
  The characters \<^verbatim>\<open>str.isspace\<close> holds of, each in UTF-8: U+0009 to U+000D, U+001C
  to U+0020, U+0085, U+00A0, U+1680, U+2000 to U+200A, U+2028, U+2029, U+202F, U+205F
  and U+3000.
\<close>

definition unicode_spaces :: "string list" where
  "unicode_spaces =
     [[CHR 0x09], [CHR 0x0A], [CHR 0x0B], [CHR 0x0C], [CHR 0x0D],
      [CHR 0x1C], [CHR 0x1D], [CHR 0x1E], [CHR 0x1F], [CHR 0x20],
      [CHR 0xC2, CHR 0x85], [CHR 0xC2, CHR 0xA0],
      [CHR 0xE1, CHR 0x9A, CHR 0x80],
      [CHR 0xE2, CHR 0x80, CHR 0x80], [CHR 0xE2, CHR 0x80, CHR 0x81],
      [CHR 0xE2, CHR 0x80, CHR 0x82], [CHR 0xE2, CHR 0x80, CHR 0x83],
      [CHR 0xE2, CHR 0x80, CHR 0x84], [CHR 0xE2, CHR 0x80, CHR 0x85],
      [CHR 0xE2, CHR 0x80, CHR 0x86], [CHR 0xE2, CHR 0x80, CHR 0x87],
      [CHR 0xE2, CHR 0x80, CHR 0x88], [CHR 0xE2, CHR 0x80, CHR 0x89],
      [CHR 0xE2, CHR 0x80, CHR 0x8A],
      [CHR 0xE2, CHR 0x80, CHR 0xA8], [CHR 0xE2, CHR 0x80, CHR 0xA9],
      [CHR 0xE2, CHR 0x80, CHR 0xAF],
      [CHR 0xE2, CHR 0x81, CHR 0x9F],
      [CHR 0xE3, CHR 0x80, CHR 0x80]]"

text \<open>Removing, from the front of a string, every leading occurrence of given words.\<close>

function drop_prefixes :: "'a list list \<Rightarrow> 'a list \<Rightarrow> 'a list" where
  "drop_prefixes ps s =
     (case find (\<lambda>p. p \<noteq> [] \<and> take (length p) s = p) ps of
        None \<Rightarrow> s
      | Some p \<Rightarrow> drop_prefixes ps (drop (length p) s))"
  by pat_completeness auto
termination
proof (relation "measure (\<lambda>(ps, s). length s)")
  show "wf (measure (\<lambda>(ps, s). length s))"
    by simp
next
  fix ps :: "'a list list" and s p :: "'a list"
  assume "find (\<lambda>p. p \<noteq> [] \<and> take (length p) s = p) ps = Some p"
  then have "p \<noteq> []" and "take (length p) s = p"
    by (auto simp: find_Some_iff)
  then have "s \<noteq> []"
    by auto
  then show "((ps, drop (length p) s), (ps, s)) \<in> measure (\<lambda>(ps, s). length s)"
    using \<open>p \<noteq> []\<close> by simp
qed

definition strip :: "string \<Rightarrow> string" where
  "strip s = rev (drop_prefixes (map rev unicode_spaces)
                    (rev (drop_prefixes unicode_spaces s)))"

subsection \<open>Drawing the chart\<close>

text \<open>
  Both handlers draw with the same lines (106 to 125, and 201 to 216): the directory
  is made, the keyword's column is plotted over the index under a title that tells
  real data from demo data, and the figure is saved to \<^verbatim>\<open>static/chart.png\<close>.
  Making the directory and writing the file may fail; the answer of the file system is
  one oracle.
\<close>

definition quoted :: "string \<Rightarrow> string" where
  "quoted s = [CHR 0x22] @ s @ [CHR 0x22]"

definition plot_title :: "bool \<Rightarrow> string \<Rightarrow> string" where
  "plot_title is_real_data keyword =
     (if is_real_data then ''Google Trends: '' @ quoted keyword
      else ''Demo Trend Data: '' @ quoted keyword)"

definition save_chart ::
  "env \<Rightarrow> frame \<Rightarrow> string \<Rightarrow> bool \<Rightarrow> world \<Rightarrow> (exn + unit) \<times> world" where
  "save_chart E data keyword is_real_data w =
     (case getitem data keyword of
        Inl e \<Rightarrow> (Inl e, w)
      | Inr sel \<Rightarrow>
          (let w' = w\<lparr>trace := trace w @ [SaveFig ''static/chart.png'']\<rparr>
           in case savefig_fails E (trace w) of
                Some e \<Rightarrow> (Inl e, w')
              | None \<Rightarrow>
                  (Inr (), w'\<lparr>chart_png := Some \<lparr>chart_title = plot_title is_real_data keyword,
                                                   chart_x = row_index data,
                                                   chart_y = sel\<rparr>\<rparr>)))"

subsection \<open>The table of the page\<close>

fun col_tail :: "nat \<Rightarrow> column \<Rightarrow> column" where
  "col_tail n (DateCol ds) = DateCol (drop (length ds - n) ds)"
| "col_tail n (NumCol vs) = NumCol (drop (length vs - n) vs)"

text \<open>\<^verbatim>\<open>data.tail(n)\<close>\<close>

definition frame_tail :: "nat \<Rightarrow> frame \<Rightarrow> frame" where
  "frame_tail n f = f\<lparr>row_index := col_tail n (row_index f),
                      columns := map (\<lambda>(k, c). (k, col_tail n c)) (columns f)\<rparr>"

text \<open>
  \<^verbatim>\<open>recent.reset_index(inplace=True)\<close>: the index becomes the first column, under its
  name (\<^verbatim>\<open>index\<close>, or \<^verbatim>\<open>level_0\<close>, when it has none); a column of that name must not
  exist.
\<close>

definition reset_index :: "frame \<Rightarrow> exn + frame" where
  "reset_index f =
     (let name = (case index_name f of
                    None \<Rightarrow> if has_column ''index'' f then ''level_0'' else ''index''
                  | Some n \<Rightarrow> n)
      in if has_column name f
         then Inl (ValueError (''cannot insert '' @ name @ '', already exists''))
         else Inr \<lparr>index_name = None,
                   row_index = range_index (col_len (row_index f)),
                   columns = (name, row_index f) # columns f\<rparr>)"

text \<open>
  \<^verbatim>\<open>.dt.strftime("%Y-%m-%d")\<close> needs a column of timestamps and keeps their calendar
  days: the formatted column is held as the timestamps of the days' starts.
\<close>

fun dt_strftime :: "column \<Rightarrow> exn + column" where
  "dt_strftime (DateCol ds) = Inr (DateCol (map (\<lambda>t. of_int (date_of t) * day) ds))"
| "dt_strftime (NumCol vs) =
     Inl (AttributeError ''Can only use .dt accessor with datetimelike values'')"

record table =
  demo_notice :: bool
  date_column :: column
  interest_column :: column

text \<open>
  \<^verbatim>\<open>recent[["date", keyword]].to_html(..., header=["Date", "Search Interest"])\<close>:
  the columns of the two labels, which must be there and must be two for the two
  headers.
\<close>

definition two_columns :: "frame \<Rightarrow> string \<Rightarrow> string \<Rightarrow> exn + column \<times> column" where
  "two_columns f k1 k2 =
     (if labelled f k1 = [] then Inl (KeyError k1)
      else if labelled f k2 = [] then Inl (KeyError k2)
      else case labelled f k1 @ labelled f k2 of
             [d, v] \<Rightarrow> Inr (d, v)
           | cs \<Rightarrow> Inl (ValueError ''Writing columns but got 2 aliases''))"

text \<open>Lines 128 to 137: the last ten rows, as the columns \<^verbatim>\<open>date\<close> and the keyword's.\<close>

definition recent_table :: "frame \<Rightarrow> string \<Rightarrow> exn + column \<times> column" where
  "recent_table data keyword =
     (case reset_index (frame_tail 10 data) of
        Inl e \<Rightarrow> Inl e
      | Inr recent \<Rightarrow>
          (case getitem recent ''date'' of
             Inl e \<Rightarrow> Inl e
           | Inr (Frame cs) \<Rightarrow> Inl (AttributeError ''DataFrame object has no attribute dt'')
           | Inr (Series c) \<Rightarrow>
               (case dt_strftime c of
                  Inl e \<Rightarrow> Inl e
                | Inr c' \<Rightarrow>
                    two_columns (recent\<lparr>columns := dict_set (columns recent) ''date'' c'\<rparr>)
                      ''date'' keyword)))"

subsection \<open>The page handler\<close>

definition apostrophe :: string where
  "apostrophe = [CHR 0x27]"

text \<open>The bullet of the message, U+2022, in UTF-8.\<close>

definition bullet :: string where
  "bullet = [CHR 0xE2, CHR 0x80, CHR 0xA2]"

definition no_data_error :: "string \<Rightarrow> string" where
  "no_data_error keyword =
     ''No trend data found for '' @ apostrophe @ keyword @ apostrophe @ ''.<br><br>''
     @ ''<strong>Possible reasons:</strong><br>''
     @ bullet @ '' Keyword is too niche or has no search volume<br>''
     @ bullet @ '' Google Trends API is temporarily unavailable<br>''
     @ bullet @ '' Try more common keywords like '' @ apostrophe @ ''python'' @ apostrophe
     @ '', '' @ apostrophe @ ''music'' @ apostrophe @ '', or '' @ apostrophe @ ''travel''
     @ apostrophe @ ''<br>''
     @ bullet @ '' Wait 10+ seconds between searches''"

record page =
  page_results :: "table option"
  page_error :: "string option"

text \<open>
  The \<^verbatim>\<open>try\<close> block of \<^verbatim>\<open>index\<close> (lines 92 to 163). It gives the values of
  \<^verbatim>\<open>results\<close> and \<^verbatim>\<open>error\<close>, or the exception that left the block.
\<close>

definition index_try ::
  "env \<Rightarrow> string \<Rightarrow> world \<Rightarrow> (exn + table option \<times> string option) \<times> world" where
  "index_try E keyword w =
     (let current_time = time_time E w;
          w1 = (if current_time - last_request_time w < 10
                then time_sleep (10 - (current_time - last_request_time w)) w
                else w)
      in case get_trends_data E keyword w1 of
           (Inl e, w2) \<Rightarrow> (Inl e, w2)
         | (Inr (data, timeframe_used, is_real_data), w2) \<Rightarrow>
             (let is_demo_data = \<not> is_real_data
              in if \<not> frame_empty data \<and> has_column keyword data
                 then (case save_chart E data keyword is_real_data w2 of
                         (Inl e, w3) \<Rightarrow> (Inl e, w3)
                       | (Inr u, w3) \<Rightarrow>
                           (case recent_table data keyword of
                              Inl e \<Rightarrow> (Inl e, w3)
                            | Inr (d, v) \<Rightarrow>
                                (Inr (Some \<lparr>demo_notice = is_demo_data, date_column = d,
                                            interest_column = v\<rparr>, None),
                                 w3\<lparr>last_request_time := time_time E w3\<rparr>)))
                 else (Inr (None, Some (no_data_error keyword)),
                       w2\<lparr>last_request_time := time_time E w2\<rparr>)))"

text \<open>The message of the \<^verbatim>\<open>except\<close> branch of \<^verbatim>\<open>index\<close> (line 166).\<close>

definition processing_error :: "exn \<Rightarrow> string" where
  "processing_error e =
     ''Error processing your request: '' @ str_exn e @ ''<br>Please try again in 30 seconds.''"

definition index :: "env \<Rightarrow> request \<Rightarrow> world \<Rightarrow> page \<times> world" where
  "index E req w =
     (if http_method req = ''POST''
      then (let keyword = strip (form_get (form req) ''keyword'' [])
            in if keyword = []
               then (\<lparr>page_results = None,
                      page_error = Some ''Please enter a keyword to search.''\<rparr>, w)
               else (case index_try E keyword w of
                       (Inl e, w') \<Rightarrow>
                         (\<lparr>page_results = None, page_error = Some (processing_error e)\<rparr>, w')
                     | (Inr (results, error), w') \<Rightarrow>
                         (\<lparr>page_results = results, page_error = error\<rparr>, w')))
      else (\<lparr>page_results = None, page_error = None\<rparr>, w))"

subsection \<open>The health check\<close>

record health =
  status :: string
  message :: string
  timestamp_now :: real

definition test_endpoint :: "env \<Rightarrow> world \<Rightarrow> health \<times> world" where
  "test_endpoint E w =
     (\<lparr>status = ''success'', message = ''API is working correctly'',
       timestamp_now = time_time E w\<rparr>, w)"

subsection \<open>The analyze handler\<close>

record result =
  r_dates :: "int list"
  r_values :: "int list"
  r_timeframe_used :: string
  r_keyword :: string
  r_is_demo_data :: bool

datatype body = Result result | Error string

text \<open>
  \<^verbatim>\<open>[str(d.date()) for d in data.index]\<close>: the calendar days of the index, which
  must hold timestamps.
\<close>

fun index_dates :: "column \<Rightarrow> exn + int list" where
  "index_dates (DateCol ds) = Inr (map date_of ds)"
| "index_dates (NumCol vs) =
     (if vs = [] then Inr []
      else Inl (AttributeError ''object has no attribute date''))"

text \<open>\<^verbatim>\<open>.fillna(0).astype(int).tolist()\<close>\<close>

fun fillna_astype_int :: "column \<Rightarrow> exn + int list" where
  "fillna_astype_int (NumCol vs) = Inr (map cell_value vs)"
| "fillna_astype_int (DateCol ds) = Inl (TypeError ''cannot convert datetimelike to int'')"

definition not_found_error :: "string \<Rightarrow> string" where
  "not_found_error keyword =
     ''No trend data found for '' @ quoted keyword
     @ ''. Try more common keywords like '' @ quoted ''python'' @ '', '' @ quoted ''music''
     @ '', or '' @ quoted ''travel'' @ ''.''"

text \<open>
  The branch of \<^verbatim>\<open>analyze\<close> for a frame that passed the guard of line 199
  (lines 200 to 228): the chart is drawn, the response is built, the time of the
  request is stored.
\<close>

definition analyze_found ::
  "env \<Rightarrow> frame \<Rightarrow> string \<Rightarrow> string \<Rightarrow> bool \<Rightarrow> world \<Rightarrow> (exn + result) \<times> world" where
  "analyze_found E data keyword timeframe_used is_real_data w =
     (case save_chart E data keyword is_real_data w of
        (Inl e, w') \<Rightarrow> (Inl e, w')
      | (Inr u, w') \<Rightarrow>
          (case index_dates (row_index data) of
             Inl e \<Rightarrow> (Inl e, w')
           | Inr ds \<Rightarrow>
               (case getitem data keyword of
                  Inl e \<Rightarrow> (Inl e, w')
                | Inr (Frame cs) \<Rightarrow>
                    (Inl (AttributeError ''DataFrame object has no attribute tolist''), w')
                | Inr (Series c) \<Rightarrow>
                    (case fillna_astype_int c of
                       Inl e \<Rightarrow> (Inl e, w')
                     | Inr vs \<Rightarrow>
                         (Inr \<lparr>r_dates = ds, r_values = vs,
                               r_timeframe_used = timeframe_used,
                               r_keyword = keyword,
                               r_is_demo_data = \<not> is_real_data\<rparr>,
                          w'\<lparr>last_request_time := time_time E w'\<rparr>)))))"

text \<open>
  The \<^verbatim>\<open>try\<close> block of \<^verbatim>\<open>analyze\<close> (lines 183 to 232): the body and the status
  it returns, or the exception that left it.
\<close>

definition analyze_try ::
  "env \<Rightarrow> request \<Rightarrow> world \<Rightarrow> (exn + body \<times> nat) \<times> world" where
  "analyze_try E req w =
     (let keyword = strip (form_get (form req) ''keyword'' [])
      in if keyword = [] then (Inr (Error ''Please enter a keyword'', 400), w)
         else
           (let current_time = time_time E w;
                w1 = (if current_time - last_request_time w < 10
                      then time_sleep (10 - (current_time - last_request_time w)) w
                      else w)
            in case get_trends_data E keyword w1 of
                 (Inl e, w2) \<Rightarrow> (Inl e, w2)
               | (Inr (data, timeframe_used, is_real_data), w2) \<Rightarrow>
                   if \<not> frame_empty data \<and> has_column keyword data
                   then (case analyze_found E data keyword timeframe_used is_real_data w2 of
                           (Inl e, w3) \<Rightarrow> (Inl e, w3)
                         | (Inr r, w3) \<Rightarrow> (Inr (Result r, 200), w3))
                   else (Inr (Error (not_found_error keyword), 404), w2)))"

text \<open>The message of the \<^verbatim>\<open>except\<close> branch of \<^verbatim>\<open>analyze\<close> (line 237).\<close>

definition server_error :: "exn \<Rightarrow> string" where
  "server_error e = ''Server error: '' @ str_exn e @ ''. Please try again later.''"

definition analyze :: "env \<Rightarrow> request \<Rightarrow> world \<Rightarrow> (body \<times> nat) \<times> world" where
  "analyze E req w =
     (case analyze_try E req w of
        (Inl e, w') \<Rightarrow> ((Error (server_error e), 500), w')
      | (Inr r, w') \<Rightarrow> (r, w'))"

section \<open>Notions used to state the properties\<close>

text \<open>
  A candidate time frame is accepted at a trace when the provider's answer there does
  not raise and passes the test of line 60, so that line 62 returns.
\<close>

definition candidate_accepted :: "env \<Rightarrow> string \<Rightarrow> event list \<Rightarrow> string \<Rightarrow> bool" where
  "candidate_accepted E keyword tr timeframe =
     (case provider E tr keyword timeframe of
        Inl e \<Rightarrow> False
      | Inr data \<Rightarrow> accepted keyword data = Inr True)"

text \<open>The world after the rate limiter's wait of a handler (lines 92 to 98, 189 to 194).\<close>

definition after_wait :: "env \<Rightarrow> world \<Rightarrow> world" where
  "after_wait E w =
     (if time_time E w - last_request_time w < 10
      then time_sleep (10 - (time_time E w - last_request_time w)) w
      else w)"

text \<open>The keyword a handler reads from a request (lines 86 and 183).\<close>

definition posted_keyword :: "request \<Rightarrow> string" where
  "posted_keyword req = strip (form_get (form req) ''keyword'' [])"

subsection \<open>Example worlds\<close>

text \<open>The state of a fresh process: \<^verbatim>\<open>last_request_time = 0\<close>, nothing done yet.\<close>

definition world_init :: world where
  "world_init = \<lparr>trace = [], last_request_time = 0, rand_pos = 0, chart_png = None\<rparr>"

definition post_keyword :: "string \<Rightarrow> request" where
  "post_keyword k = \<lparr>http_method = ''POST'', form = [(''keyword'', k)]\<rparr>"

text \<open>A provider answer with two days of interest in \<^verbatim>\<open>python\<close>.\<close>

definition good_frame :: frame where
  "good_frame = \<lparr>index_name = Some ''date'', row_index = DateCol [86400, 172800],
                  columns = [(''python'', NumCol [Some 3, Some 5]),
                             (''isPartial'', NumCol [Some 0, Some 0])]\<rparr>"

text \<open>A provider answer without rows, and one whose interest is zero throughout.\<close>

definition empty_frame :: frame where
  "empty_frame = \<lparr>index_name = None, row_index = NumCol [], columns = []\<rparr>"

definition zero_frame :: frame where
  "zero_frame = \<lparr>index_name = Some ''date'', row_index = DateCol [86400, 172800],
                  columns = [(''python'', NumCol [Some 0, Some 0]),
                             (''isPartial'', NumCol [Some 0, Some 0])]\<rparr>"

text \<open>
  The answer of the provider's client to the keyword \<^verbatim>\<open>isPartial\<close>: the client
  names one column after the keyword and appends its own column \<^verbatim>\<open>isPartial\<close>.
\<close>

definition partial_frame :: frame where
  "partial_frame = \<lparr>index_name = Some ''date'', row_index = DateCol [86400, 172800],
                     columns = [(''isPartial'', NumCol [Some 3, Some 5]),
                                (''isPartial'', NumCol [Some 0, Some 0])]\<rparr>"

text \<open>
  Two consoles: one that takes every line, and one whose encoding is ASCII, where a
  line with a byte above 127 raises.
\<close>

definition utf8_console :: console where
  "utf8_console line = None"

definition ascii_console :: console where
  "ascii_console line =
     (if list_ex (\<lambda>c. 127 < (of_char c :: nat)) line
      then Some (UnicodeEncodeError ''ascii codec cannot encode character'')
      else None)"

text \<open>
  Five outside worlds. The clock of each advances by one second per event, starting at
  100. In \<open>env_second\<close> the provider has no rows for the last 7 days and data for the
  last month. In \<open>env_failing\<close> the first query raises, the second has no rows and the
  third sums to zero. In \<open>env_down\<close> the client cannot be built. In \<open>env_disk_full\<close> the
  provider answers and the chart cannot be written. In \<open>env_partial\<close> the provider
  answers every query for \<^verbatim>\<open>isPartial\<close> with data.
\<close>

definition env_second :: env where
  "env_second = \<lparr>wall = (\<lambda>tr. 100 + real (length tr)),
                  client_fails = (\<lambda>tr. None),
                  provider = (\<lambda>tr k tf. if tf = ''now 7-d'' then Inr empty_frame
                                          else Inr good_frame),
                  savefig_fails = (\<lambda>tr. None),
                  rand_src = (\<lambda>n. 10)\<rparr>"

definition env_failing :: env where
  "env_failing = \<lparr>wall = (\<lambda>tr. 100 + real (length tr)),
                   client_fails = (\<lambda>tr. None),
                   provider = (\<lambda>tr k tf. if tf = ''now 7-d'' then Inl (ProviderError ''429'')
                                           else if tf = ''today 1-m'' then Inr empty_frame
                                           else Inr zero_frame),
                   savefig_fails = (\<lambda>tr. None),
                   rand_src = (\<lambda>n. 10)\<rparr>"

definition env_down :: env where
  "env_down = \<lparr>wall = (\<lambda>tr. 100 + real (length tr)),
                client_fails = (\<lambda>tr. Some (ProviderError ''connection refused'')),
                provider = (\<lambda>tr k tf. Inl (ProviderError ''connection refused'')),
                savefig_fails = (\<lambda>tr. None),
                rand_src = (\<lambda>n. 10)\<rparr>"

definition env_disk_full :: env where
  "env_disk_full = \<lparr>wall = (\<lambda>tr. 100 + real (length tr)),
                     client_fails = (\<lambda>tr. None),
                     provider = (\<lambda>tr k tf. Inr good_frame),
                     savefig_fails = (\<lambda>tr. Some (OSError ''No space left on device'')),
                     rand_src = (\<lambda>n. 10)\<rparr>"

definition env_partial :: env where
  "env_partial = \<lparr>wall = (\<lambda>tr. 100 + real (length tr)),
                   client_fails = (\<lambda>tr. None),
                   provider = (\<lambda>tr k tf. Inr partial_frame),
                   savefig_fails = (\<lambda>tr. None),
                   rand_src = (\<lambda>n. 10)\<rparr>"

section \<open>Properties of the generator and of the fetcher\<close>

lemma demo_loop_length: "length (fst (demo_loop E is vs w)) = length vs + length is"
  by (induction "is" arbitrary: vs w) (auto simp: Let_def split: prod.splits)

lemma demo_loop_world:
  "snd (demo_loop E is vs w) = w\<lparr>rand_pos := rand_pos w + length is\<rparr>"
  by (induction "is" arbitrary: vs w) (auto simp: Let_def random_randint_def split: prod.splits)

lemma date_range_90: "length (date_range (t - timedelta_days 90) t) = 91"
  by (simp add: date_range_def timedelta_days_def day_def)

lemma generate_demo_data_world:
  "snd (generate_demo_data E keyword w) = w\<lparr>rand_pos := rand_pos w + 91\<rparr>"
proof -
  obtain vs w' where l: "demo_loop E [0..<91] [] w = (vs, w')"
    by (cases "demo_loop E [0..<91] [] w")
  have w': "w' = w\<lparr>rand_pos := rand_pos w + 91\<rparr>"
    using demo_loop_world [of E "[0..<91]" "[]" w] l by simp
  show ?thesis
    by (simp add: generate_demo_data_def Let_def date_range_90 l w' split: sum.splits selection.splits)
qed

lemma generate_demo_data_total:
  "\<exists>data. fst (generate_demo_data E keyword w) = Inr data"
proof -
  obtain vs w' where l: "demo_loop E [0..<91] [] w = (vs, w')"
    by (cases "demo_loop E [0..<91] [] w")
  have len: "length vs = 91"
    using demo_loop_length [of E "[0..<91]" "[]" w] l by simp
  show ?thesis
    by (cases "keyword = ''date''")
       (simp_all add: generate_demo_data_def Let_def date_range_90 l len pd_DataFrame_def
          set_index_def)
qed

lemma fallback_total:
  "\<exists>data. fst (fallback E keyword w) = Inr (data, demo_label, False)"
  using generate_demo_data_total [of E keyword w]
  by (auto simp: fallback_def split: prod.splits sum.splits selection.splits)

lemma try_timeframes_first:
  "i < length tfs \<Longrightarrow>
   (\<forall>j<i. \<not> candidate_accepted E keyword (trace w @ map (Queried keyword) (take j tfs)) (tfs ! j)) \<Longrightarrow>
   provider E (trace w @ map (Queried keyword) (take i tfs)) keyword (tfs ! i) = Inr data \<Longrightarrow>
   accepted keyword data = Inr True \<Longrightarrow>
   try_timeframes E keyword tfs w =
     (Some (data, tfs ! i), w\<lparr>trace := trace w @ map (Queried keyword) (take (Suc i) tfs)\<rparr>)"
proof (induction tfs arbitrary: i w)
  case Nil
  then show ?case by simp
next
  case (Cons tf tfs)
  show ?case
  proof (cases i)
    case 0
    then show ?thesis using Cons.prems by (simp add: Let_def)
  next
    case (Suc k)
    let ?w' = "w\<lparr>trace := trace w @ [Queried keyword tf]\<rparr>"
    have first: "\<not> candidate_accepted E keyword (trace w) tf"
      using Cons.prems(2) Suc by (auto dest: spec [of _ 0])
    have rest: "\<forall>j<k. \<not> candidate_accepted E keyword
                  (trace ?w' @ map (Queried keyword) (take j tfs)) (tfs ! j)"
    proof (intro allI impI)
      fix j assume "j < k"
      then have "Suc j < i" using Suc by simp
      then show "\<not> candidate_accepted E keyword
                  (trace ?w' @ map (Queried keyword) (take j tfs)) (tfs ! j)"
        using Cons.prems(2) by (auto dest: spec [of _ "Suc j"])
    qed
    have ih: "try_timeframes E keyword tfs ?w' =
        (Some (data, tfs ! k), ?w'\<lparr>trace := trace ?w' @ map (Queried keyword) (take (Suc k) tfs)\<rparr>)"
      using Cons.IH [of k ?w'] Cons.prems Suc rest by simp
    have step: "try_timeframes E keyword (tf # tfs) w = try_timeframes E keyword tfs ?w'"
      using first
      by (auto simp: candidate_accepted_def Let_def split: sum.splits selection.splits bool.splits)
    show ?thesis using step ih Suc by simp
  qed
qed


lemma accepted_iff:
  "accepted keyword data = Inr True \<longleftrightarrow>
     \<not> frame_empty data \<and> has_column keyword data \<and>
     (\<exists>c s. getitem data keyword = Inr (Series c) \<and> col_sum c = Inr s \<and> 0 < s)"
  by (auto simp: accepted_def split: sum.splits selection.splits)

lemma get_trends_data_fallback_client:
  "client_fails E (trace w) = Some e \<Longrightarrow>
   get_trends_data E keyword w = fallback E keyword (w\<lparr>trace := trace w @ [NewClient]\<rparr>)"
  by (simp add: get_trends_data_def Let_def)

lemma fallback_eq:
  "fst (generate_demo_data E keyword w) = Inr data \<Longrightarrow>
   fst (fallback E keyword w) = Inr (data, demo_label, False)"
  by (auto simp: fallback_def split: prod.splits sum.splits selection.splits)

lemma demo_data_date:
  "\<exists>vs. fst (generate_demo_data E ''date'' w) =
          Inr \<lparr>index_name = Some ''date'', row_index = NumCol vs, columns = []\<rparr>"
  by (simp add: generate_demo_data_def Let_def pd_DataFrame_def set_index_def
        split: prod.splits)

lemma demo_loop_values:
  "fst (demo_loop E is vs w) =
     vs @ map (\<lambda>(k, i). max 10 (base_trend ! (i mod 15)
                 + (- 10 + int (rand_src E (rand_pos w + k) mod 21))))
            (zip [0..<length is] is)"
proof (induction "is" arbitrary: vs w)
  case Nil
  then show ?case by simp
next
  case (Cons i "is")
  have shift: "zip [0..<Suc (length is)] (i # is) = (0, i) # zip (map Suc [0..<length is]) is"
    by (simp add: upt_conv_Cons map_Suc_upt del: upt_Suc)
  have len: "length base_trend = 15"
    by (simp add: base_trend_def)
  show ?case
    by (simp add: Let_def random_randint_def Cons.IH shift len zip_map1 case_prod_unfold
          del: upt_Suc)
qed

lemma demo_data_shape:
  assumes "keyword \<noteq> ''date''"
  shows "fst (generate_demo_data E keyword w) =
          Inr \<lparr>index_name = Some ''date'',
               row_index = DateCol (map (\<lambda>k. wall E (trace w) - 90 * day + real k * day) [0..<91]),
               columns = [(keyword, NumCol (map (\<lambda>i. Some (max 10 (base_trend ! (i mod 15)
                 + (- 10 + int (rand_src E (rand_pos w + i) mod 21))))) [0..<91]))]\<rparr>"
proof -
  obtain vs w' where l: "demo_loop E [0..<91] [] w = (vs, w')"
    by (cases "demo_loop E [0..<91] [] w")
  have z: "zip [0..<91] [0..<91] = map (\<lambda>i. (i, i)) [0..<91]"
    by (simp add: zip_same_conv_map)
  have vs: "vs = map (\<lambda>i. max 10 (base_trend ! (i mod 15)
                 + (- 10 + int (rand_src E (rand_pos w + i) mod 21)))) [0..<91]"
    using demo_loop_values [of E "[0..<91]" "[]" w] l by (simp add: z comp_def)
  have dr: "date_range (wall E (trace w) - timedelta_days 90) (wall E (trace w)) =
            map (\<lambda>k. wall E (trace w) - 90 * day + real k * day) [0..<91]"
    by (simp add: date_range_def timedelta_days_def day_def)
  show ?thesis
    using assms
    by (simp add: generate_demo_data_def datetime_now_def Let_def dr l pd_DataFrame_def
          set_index_def vs comp_def)
qed

lemma try_timeframes_world:
  "\<exists>n. snd (try_timeframes E keyword tfs w) =
          w\<lparr>trace := trace w @ map (Queried keyword) (take n tfs)\<rparr>"
proof (induction tfs arbitrary: w)
  case Nil
  then show ?case by simp
next
  case (Cons tf tfs)
  let ?w' = "w\<lparr>trace := trace w @ [Queried keyword tf]\<rparr>"
  obtain n where n: "snd (try_timeframes E keyword tfs ?w') =
      ?w'\<lparr>trace := trace ?w' @ map (Queried keyword) (take n tfs)\<rparr>"
    using Cons.IH by blast
  have rec: "snd (try_timeframes E keyword tfs ?w') =
      w\<lparr>trace := trace w @ map (Queried keyword) (take (Suc n) (tf # tfs))\<rparr>"
    using n by simp
  have now: "?w' = w\<lparr>trace := trace w @ map (Queried keyword) (take (Suc 0) (tf # tfs))\<rparr>"
    by simp
  have "snd (try_timeframes E keyword (tf # tfs) w) = snd (try_timeframes E keyword tfs ?w')
        \<or> snd (try_timeframes E keyword (tf # tfs) w) = ?w'"
    by (simp add: Let_def split: sum.splits bool.splits)
  then show ?case
    using rec now by metis
qed

lemma fallback_world:
  "snd (fallback E keyword w) = w\<lparr>rand_pos := rand_pos w + 91\<rparr>"
  using generate_demo_data_world [of E keyword w]
  by (auto simp: fallback_def split: prod.splits sum.splits)

lemma get_trends_data_world:
  "\<exists>n k. snd (get_trends_data E keyword w) =
          w\<lparr>trace := trace w @ NewClient # map (Queried keyword) (take n timeframes),
            rand_pos := rand_pos w + k\<rparr>"
proof (cases "client_fails E (trace w)")
  case (Some e)
  have "snd (get_trends_data E keyword w) =
          w\<lparr>trace := trace w @ NewClient # map (Queried keyword) (take 0 timeframes),
            rand_pos := rand_pos w + 91\<rparr>"
    using Some by (simp add: get_trends_data_def Let_def fallback_world)
  then show ?thesis by blast
next
  case None
  let ?w0 = "w\<lparr>trace := trace w @ [NewClient]\<rparr>"
  obtain n where n: "snd (try_timeframes E keyword timeframes ?w0) =
      ?w0\<lparr>trace := trace ?w0 @ map (Queried keyword) (take n timeframes)\<rparr>"
    using try_timeframes_world by blast
  obtain r w1 where t: "try_timeframes E keyword timeframes ?w0 = (r, w1)"
    by (cases "try_timeframes E keyword timeframes ?w0")
  have w1: "w1 = w\<lparr>trace := trace w @ NewClient # map (Queried keyword) (take n timeframes)\<rparr>"
    using n t by simp
  show ?thesis
  proof (cases r)
    case None' : None
    obtain data where d: "fst (generate_demo_data E keyword w1) = Inr data"
      using generate_demo_data_total by blast
    have "snd (get_trends_data E keyword w) = w1\<lparr>rand_pos := rand_pos w1 + 91\<rparr>"
      using None None' t d generate_demo_data_world [of E keyword w1]
      by (auto simp: get_trends_data_def Let_def split: prod.splits sum.splits)
    then have "snd (get_trends_data E keyword w) =
          w\<lparr>trace := trace w @ NewClient # map (Queried keyword) (take n timeframes),
            rand_pos := rand_pos w + 91\<rparr>"
      by (simp add: w1)
    then show ?thesis by blast
  next
    case (Some p)
    have "snd (get_trends_data E keyword w) = w1"
      using None Some t by (auto simp: get_trends_data_def Let_def split: prod.splits)
    then have "snd (get_trends_data E keyword w) =
          w\<lparr>trace := trace w @ NewClient # map (Queried keyword) (take n timeframes),
            rand_pos := rand_pos w + 0\<rparr>"
      by (simp add: w1)
    then show ?thesis by blast
  qed
qed

lemma demo_data_passes_guard:
  assumes "keyword \<noteq> ''date''" and "fst (generate_demo_data E keyword w) = Inr data"
  shows "\<not> frame_empty data \<and> has_column keyword data"
  using assms(2) unfolding demo_data_shape [OF assms(1)]
  by (auto simp: frame_empty_def has_column_def)

lemma demo_data_keyword_independent:
  assumes "k1 \<noteq> ''date''" and "k2 \<noteq> ''date''"
  shows "\<exists>ix vs. fst (generate_demo_data E k1 w) =
                    Inr \<lparr>index_name = Some ''date'', row_index = ix, columns = [(k1, vs)]\<rparr> \<and>
                  fst (generate_demo_data E k2 w) =
                    Inr \<lparr>index_name = Some ''date'', row_index = ix, columns = [(k2, vs)]\<rparr>"
  by (simp add: demo_data_shape [OF assms(1)] demo_data_shape [OF assms(2)])

section \<open>Properties of the handlers\<close>

lemma after_wait_trace:
  "trace (after_wait E w) =
     trace w @ (if wall E (trace w) - last_request_time w < 10
                then [Slept (10 - (wall E (trace w) - last_request_time w))] else [])"
  by (simp add: after_wait_def time_sleep_def time_time_def)

lemma after_wait_last_request_time:
  "last_request_time (after_wait E w) = last_request_time w"
  by (simp add: after_wait_def time_sleep_def)

lemma save_chart_trace:
  "\<exists>saves. trace (snd (save_chart E data keyword is_real w)) = trace w @ saves \<and>
            (saves = [] \<or> saves = [SaveFig ''static/chart.png''])"
  by (simp add: save_chart_def Let_def split: sum.splits selection.splits option.splits)

lemma save_chart_last_request_time:
  "last_request_time (snd (save_chart E data keyword is_real w)) = last_request_time w"
  by (simp add: save_chart_def Let_def split: sum.splits selection.splits option.splits)

lemma get_trends_data_trace:
  "\<exists>n. trace (snd (get_trends_data E keyword w)) =
          trace w @ NewClient # map (Queried keyword) (take n timeframes)"
proof -
  obtain n k where "snd (get_trends_data E keyword w) =
          w\<lparr>trace := trace w @ NewClient # map (Queried keyword) (take n timeframes),
            rand_pos := rand_pos w + k\<rparr>"
    using get_trends_data_world by blast
  then have "trace (snd (get_trends_data E keyword w)) =
          trace w @ NewClient # map (Queried keyword) (take n timeframes)"
    by simp
  then show ?thesis by blast
qed

lemma get_trends_data_last_request_time:
  "last_request_time (snd (get_trends_data E keyword w)) = last_request_time w"
proof -
  obtain n k where "snd (get_trends_data E keyword w) =
          w\<lparr>trace := trace w @ NewClient # map (Queried keyword) (take n timeframes),
            rand_pos := rand_pos w + k\<rparr>"
    using get_trends_data_world by blast
  then show ?thesis by simp
qed

lemma index_try_unfold:
  "index_try E keyword w =
     (case get_trends_data E keyword (after_wait E w) of
        (Inl e, w2) \<Rightarrow> (Inl e, w2)
      | (Inr (data, timeframe_used, is_real_data), w2) \<Rightarrow>
          if \<not> frame_empty data \<and> has_column keyword data
          then (case save_chart E data keyword is_real_data w2 of
                  (Inl e, w3) \<Rightarrow> (Inl e, w3)
                | (Inr u, w3) \<Rightarrow>
                    (case recent_table data keyword of
                       Inl e \<Rightarrow> (Inl e, w3)
                     | Inr (d, v) \<Rightarrow>
                         (Inr (Some \<lparr>demo_notice = \<not> is_real_data, date_column = d,
                                     interest_column = v\<rparr>, None),
                          w3\<lparr>last_request_time := wall E (trace w3)\<rparr>)))
          else (Inr (None, Some (no_data_error keyword)),
                w2\<lparr>last_request_time := wall E (trace w2)\<rparr>))"
  unfolding index_try_def after_wait_def Let_def time_time_def by (rule refl)

lemma analyze_try_unfold:
  "analyze_try E req w =
     (if posted_keyword req = [] then (Inr (Error ''Please enter a keyword'', 400), w)
      else case get_trends_data E (posted_keyword req) (after_wait E w) of
             (Inl e, w2) \<Rightarrow> (Inl e, w2)
           | (Inr (data, timeframe_used, is_real_data), w2) \<Rightarrow>
               if \<not> frame_empty data \<and> has_column (posted_keyword req) data
               then (case analyze_found E data (posted_keyword req) timeframe_used
                            is_real_data w2 of
                       (Inl e, w3) \<Rightarrow> (Inl e, w3)
                     | (Inr r, w3) \<Rightarrow> (Inr (Result r, 200), w3))
               else (Inr (Error (not_found_error (posted_keyword req)), 404), w2))"
  unfolding analyze_try_def posted_keyword_def after_wait_def Let_def time_time_def by (rule refl)

lemma index_try_trace:
  "\<exists>n saves. trace (snd (index_try E keyword w)) =
        trace (after_wait E w) @ NewClient # map (Queried keyword) (take n timeframes) @ saves \<and>
        (saves = [] \<or> saves = [SaveFig ''static/chart.png''])"
proof -
  obtain r w2 where g: "get_trends_data E keyword (after_wait E w) = (r, w2)"
    by (cases "get_trends_data E keyword (after_wait E w)")
  obtain n where n: "trace w2 =
      trace (after_wait E w) @ NewClient # map (Queried keyword) (take n timeframes)"
    using get_trends_data_trace [of E keyword "after_wait E w"] g by auto
  show ?thesis
  proof (cases r)
    case (Inl e)
    then have "trace (snd (index_try E keyword w)) = trace w2"
      using g by (simp add: index_try_unfold)
    then show ?thesis using n by auto
  next
    case (Inr p)
    obtain data tf is_real where p: "p = (data, tf, is_real)"
      by (cases p)
    obtain saves where s: "trace (snd (save_chart E data keyword is_real w2)) = trace w2 @ saves"
      "saves = [] \<or> saves = [SaveFig ''static/chart.png'']"
      using save_chart_trace by blast
    have "trace (snd (index_try E keyword w)) = trace w2
          \<or> trace (snd (index_try E keyword w)) = trace (snd (save_chart E data keyword is_real w2))"
      using g Inr p by (auto simp: index_try_unfold split: prod.splits sum.splits selection.splits)
    then show ?thesis
    proof
      assume "trace (snd (index_try E keyword w)) = trace w2"
      then show ?thesis using n by auto
    next
      assume "trace (snd (index_try E keyword w)) =
              trace (snd (save_chart E data keyword is_real w2))"
      then have "trace (snd (index_try E keyword w)) =
          trace (after_wait E w) @ NewClient # map (Queried keyword) (take n timeframes) @ saves"
        using s(1) n by simp
      then show ?thesis using s(2) by blast
    qed
  qed
qed

lemma analyze_found_trace:
  "trace (snd (analyze_found E data keyword tf is_real w)) =
     trace (snd (save_chart E data keyword is_real w))"
  by (auto simp: analyze_found_def split: prod.splits sum.splits selection.splits)

lemma analyze_try_trace:
  assumes "posted_keyword req \<noteq> []"
  shows "\<exists>n saves. trace (snd (analyze_try E req w)) =
        trace (after_wait E w) @ NewClient #
          map (Queried (posted_keyword req)) (take n timeframes) @ saves \<and>
        (saves = [] \<or> saves = [SaveFig ''static/chart.png''])"
proof -
  let ?k = "posted_keyword req"
  obtain r w2 where g: "get_trends_data E ?k (after_wait E w) = (r, w2)"
    by (cases "get_trends_data E ?k (after_wait E w)")
  obtain n where n: "trace w2 =
      trace (after_wait E w) @ NewClient # map (Queried ?k) (take n timeframes)"
    using get_trends_data_trace [of E ?k "after_wait E w"] g by auto
  show ?thesis
  proof (cases r)
    case (Inl e)
    then have "trace (snd (analyze_try E req w)) = trace w2"
      using g assms by (simp add: analyze_try_unfold)
    then show ?thesis using n by auto
  next
    case (Inr p)
    obtain data tf is_real where p: "p = (data, tf, is_real)"
      by (cases p)
    obtain saves where s: "trace (snd (save_chart E data ?k is_real w2)) = trace w2 @ saves"
      "saves = [] \<or> saves = [SaveFig ''static/chart.png'']"
      using save_chart_trace by blast
    have "trace (snd (analyze_try E req w)) = trace w2
          \<or> trace (snd (analyze_try E req w)) = trace (snd (save_chart E data ?k is_real w2))"
      using g Inr p assms analyze_found_trace [of E data ?k tf is_real w2]
      by (auto simp: analyze_try_unfold split: prod.splits sum.splits selection.splits)
    then show ?thesis
    proof
      assume "trace (snd (analyze_try E req w)) = trace w2"
      then show ?thesis using n by auto
    next
      assume "trace (snd (analyze_try E req w)) =
              trace (snd (save_chart E data ?k is_real w2))"
      then have "trace (snd (analyze_try E req w)) =
          trace (after_wait E w) @ NewClient # map (Queried ?k) (take n timeframes) @ saves"
        using s(1) n by simp
      then show ?thesis using s(2) by blast
    qed
  qed
qed

lemma index_world:
  "http_method req = ''POST'' \<Longrightarrow> posted_keyword req \<noteq> [] \<Longrightarrow>
   snd (index E req w) = snd (index_try E (posted_keyword req) w)"
  by (simp add: index_def posted_keyword_def Let_def split: prod.splits sum.splits selection.splits)

lemma analyze_world:
  "snd (analyze E req w) = snd (analyze_try E req w)"
  by (simp add: analyze_def split: prod.splits sum.splits selection.splits)

lemma analyze_found_cases:
  "(\<exists>e. fst (analyze_found E data keyword tf is_real w) = Inl e \<and>
        last_request_time (snd (analyze_found E data keyword tf is_real w)) = last_request_time w)
   \<or> (\<exists>r. fst (analyze_found E data keyword tf is_real w) = Inr r \<and>
        last_request_time (snd (analyze_found E data keyword tf is_real w)) =
          wall E (trace (snd (analyze_found E data keyword tf is_real w))))"
proof -
  obtain s w' where sc: "save_chart E data keyword is_real w = (s, w')"
    by (cases "save_chart E data keyword is_real w")
  have l: "last_request_time w' = last_request_time w"
    using save_chart_last_request_time [of E data keyword is_real w] sc by simp
  show ?thesis
    using sc l by (auto simp: analyze_found_def time_time_def split: sum.splits selection.splits)
qed

lemma analyze_found_fields:
  "fst (analyze_found E data keyword tf is_real w) = Inr r \<Longrightarrow>
   r_timeframe_used r = tf \<and> r_keyword r = keyword \<and> r_is_demo_data r = (\<not> is_real) \<and>
   index_dates (row_index data) = Inr (r_dates r) \<and>
   (\<exists>c. getitem data keyword = Inr (Series c) \<and> fillna_astype_int c = Inr (r_values r))"
  by (auto simp: analyze_found_def split: prod.splits sum.splits selection.splits)

lemma index_try_cases:
  "(\<exists>e. fst (index_try E keyword w) = Inl e \<and>
        last_request_time (snd (index_try E keyword w)) = last_request_time w)
   \<or> (\<exists>t. fst (index_try E keyword w) = Inr (Some t, None) \<and>
        last_request_time (snd (index_try E keyword w)) =
          wall E (trace (snd (index_try E keyword w))))
   \<or> (fst (index_try E keyword w) = Inr (None, Some (no_data_error keyword)) \<and>
        last_request_time (snd (index_try E keyword w)) =
          wall E (trace (snd (index_try E keyword w))))"
proof -
  obtain r w2 where g: "get_trends_data E keyword (after_wait E w) = (r, w2)"
    by (cases "get_trends_data E keyword (after_wait E w)")
  have l2: "last_request_time w2 = last_request_time w"
    using get_trends_data_last_request_time [of E keyword "after_wait E w"] g
    by (simp add: after_wait_last_request_time)
  show ?thesis
  proof (cases r)
    case (Inl e)
    then show ?thesis using g l2 by (simp add: index_try_unfold)
  next
    case (Inr p)
    obtain data tf is_real where p: "p = (data, tf, is_real)"
      by (cases p)
    obtain s w3 where sc: "save_chart E data keyword is_real w2 = (s, w3)"
      by (cases "save_chart E data keyword is_real w2")
    have l3: "last_request_time w3 = last_request_time w"
      using save_chart_last_request_time [of E data keyword is_real w2] sc l2 by simp
    show ?thesis
      using g Inr p sc l2 l3
      by (auto simp: index_try_unfold split: sum.splits selection.splits prod.splits)
  qed
qed

lemma analyze_try_cases:
  "(\<exists>e. fst (analyze_try E req w) = Inl e \<and>
        last_request_time (snd (analyze_try E req w)) = last_request_time w)
   \<or> (posted_keyword req = [] \<and> analyze_try E req w = (Inr (Error ''Please enter a keyword'', 400), w))
   \<or> (\<exists>r. fst (analyze_try E req w) = Inr (Result r, 200) \<and>
        last_request_time (snd (analyze_try E req w)) =
          wall E (trace (snd (analyze_try E req w))))
   \<or> fst (analyze_try E req w) = Inr (Error (not_found_error (posted_keyword req)), 404)"
proof (cases "posted_keyword req = []")
  case True
  then show ?thesis by (simp add: analyze_try_unfold)
next
  case False
  let ?k = "posted_keyword req"
  obtain r w2 where g: "get_trends_data E ?k (after_wait E w) = (r, w2)"
    by (cases "get_trends_data E ?k (after_wait E w)")
  have l2: "last_request_time w2 = last_request_time w"
    using get_trends_data_last_request_time [of E ?k "after_wait E w"] g
    by (simp add: after_wait_last_request_time)
  show ?thesis
  proof (cases r)
    case (Inl e)
    then show ?thesis using g l2 False by (simp add: analyze_try_unfold)
  next
    case (Inr p)
    obtain data tf is_real where p: "p = (data, tf, is_real)"
      by (cases p)
    show ?thesis
      using g Inr p l2 False analyze_found_cases [of E data ?k tf is_real w2]
      by (auto simp: analyze_try_unfold split: sum.splits selection.splits prod.splits)
  qed
qed

lemma error_messages_differ:
  "no_data_error keyword \<noteq> processing_error e"
  by (simp add: no_data_error_def processing_error_def)

text \<open>
  The answer 404 of \<^verbatim>\<open>analyze\<close> returns at line 230 before any update: the time of
  the last request stays as it was, where the same branch of \<^verbatim>\<open>index\<close> stores
  the current time (line 163).
\<close>

lemma analyze_not_found_keeps_timestamp:
  assumes "snd (fst (analyze E req w)) = 404"
  shows "last_request_time (snd (analyze E req w)) = last_request_time w"
proof (cases "posted_keyword req = []")
  case True
  then show ?thesis using assms by (simp add: analyze_def analyze_try_unfold)
next
  case False
  let ?k = "posted_keyword req"
  obtain r w2 where g: "get_trends_data E ?k (after_wait E w) = (r, w2)"
    by (cases "get_trends_data E ?k (after_wait E w)")
  have l2: "last_request_time w2 = last_request_time w"
    using get_trends_data_last_request_time [of E ?k "after_wait E w"] g
    by (simp add: after_wait_last_request_time)
  show ?thesis
  proof (cases r)
    case (Inl e)
    then show ?thesis using g l2 False by (simp add: analyze_def analyze_try_unfold)
  next
    case (Inr p)
    obtain data tf is_real where p: "p = (data, tf, is_real)"
      by (cases p)
    show ?thesis
      using g Inr p l2 False assms analyze_found_cases [of E data ?k tf is_real w2]
      by (auto simp: analyze_def analyze_try_unfold split: sum.splits selection.splits prod.splits if_splits)
  qed
qed

section \<open>The example worlds, evaluated\<close>

lemma posted_python: "posted_keyword (post_keyword ''python'') = ''python''"
  by (simp add: posted_keyword_def post_keyword_def form_get_def strip_def unicode_spaces_def)

lemma posted_date: "posted_keyword (post_keyword ''date'') = ''date''"
  by (simp add: posted_keyword_def post_keyword_def form_get_def strip_def unicode_spaces_def)

lemma posted_blank: "posted_keyword (post_keyword ''  '') = []"
  by (simp add: posted_keyword_def post_keyword_def form_get_def strip_def unicode_spaces_def)

lemma posted_missing: "posted_keyword \<lparr>http_method = ''POST'', form = []\<rparr> = []"
  by (simp add: posted_keyword_def form_get_def strip_def unicode_spaces_def)

text \<open>A no-break space (U+00A0) and an ideographic space (U+3000) are stripped too.\<close>

lemma posted_unicode_blank:
  "posted_keyword (post_keyword [CHR 0xC2, CHR 0xA0, CHR 0xE3, CHR 0x80, CHR 0x80]) = []"
  "posted_keyword (post_keyword ([CHR 0xC2, CHR 0xA0] @ ''python'' @ [CHR 0xE3, CHR 0x80, CHR 0x80]))
     = ''python''"
  by (simp_all add: posted_keyword_def post_keyword_def form_get_def strip_def unicode_spaces_def)

lemma good_frame_accepted: "accepted ''python'' good_frame = Inr True"
  by (simp add: accepted_def frame_empty_def has_column_def getitem_def labelled_def good_frame_def)

lemma empty_frame_rejected: "accepted keyword empty_frame = Inr False"
  by (simp add: accepted_def frame_empty_def empty_frame_def)

lemma fetch_second:
  "get_trends_data env_second ''python'' w =
     (Inr (good_frame, ''today 1-m'', True),
      w\<lparr>trace := trace w @ [NewClient, Queried ''python'' ''now 7-d'',
                             Queried ''python'' ''today 1-m'']\<rparr>)"
  by (simp add: get_trends_data_def Let_def timeframes_def env_second_def
        good_frame_accepted empty_frame_rejected)

lemma fetch_disk_full:
  "get_trends_data env_disk_full ''python'' w =
     (Inr (good_frame, ''now 7-d'', True),
      w\<lparr>trace := trace w @ [NewClient, Queried ''python'' ''now 7-d'']\<rparr>)"
  by (simp add: get_trends_data_def Let_def timeframes_def env_disk_full_def
        good_frame_accepted)

lemma fetch_down_date:
  "\<exists>vs. get_trends_data env_down ''date'' w =
     (Inr (\<lparr>index_name = Some ''date'', row_index = NumCol vs, columns = []\<rparr>,
           ''demo (last 3 months)'', False),
      w\<lparr>trace := trace w @ [NewClient], rand_pos := rand_pos w + 91\<rparr>)"
proof -
  let ?w0 = "w\<lparr>trace := trace w @ [NewClient]\<rparr>"
  obtain vs where d: "fst (generate_demo_data env_down ''date'' ?w0) =
      Inr \<lparr>index_name = Some ''date'', row_index = NumCol vs, columns = []\<rparr>"
    using demo_data_date by blast
  have c: "client_fails env_down (trace w) = Some (ProviderError ''connection refused'')"
    by (simp add: env_down_def)
  have "get_trends_data env_down ''date'' w = fallback env_down ''date'' ?w0"
    using c by (rule get_trends_data_fallback_client)
  moreover have "fst (fallback env_down ''date'' ?w0) =
      Inr (\<lparr>index_name = Some ''date'', row_index = NumCol vs, columns = []\<rparr>, demo_label, False)"
    using d by (rule fallback_eq)
  moreover have "snd (fallback env_down ''date'' ?w0) = ?w0\<lparr>rand_pos := rand_pos ?w0 + 91\<rparr>"
    by (rule fallback_world)
  ultimately have "get_trends_data env_down ''date'' w =
     (Inr (\<lparr>index_name = Some ''date'', row_index = NumCol vs, columns = []\<rparr>,
           ''demo (last 3 months)'', False),
      w\<lparr>trace := trace w @ [NewClient], rand_pos := rand_pos w + 91\<rparr>)"
    by (simp add: prod_eq_iff demo_label_def)
  then show ?thesis by blast
qed

lemma no_wait_init: "after_wait E world_init = world_init" if "10 \<le> wall E []"
  using that by (simp add: after_wait_def world_init_def time_time_def)

lemma recent_table_good:
  "recent_table good_frame ''python'' =
     Inr (DateCol [86400, 172800], NumCol [Some 3, Some 5])"
  by (simp add: recent_table_def frame_tail_def reset_index_def good_frame_def has_column_def
        getitem_def labelled_def two_columns_def Let_def date_of_def day_def)

lemma save_chart_good:
  "savefig_fails E (trace w) = None \<Longrightarrow>
   save_chart E good_frame ''python'' True w =
     (Inr (), w\<lparr>trace := trace w @ [SaveFig ''static/chart.png''],
                chart_png := Some \<lparr>chart_title = plot_title True ''python'',
                                   chart_x = DateCol [86400, 172800],
                                   chart_y = Series (NumCol [Some 3, Some 5])\<rparr>\<rparr>)"
  by (simp add: save_chart_def getitem_def labelled_def good_frame_def Let_def)

lemma save_chart_disk_full:
  "save_chart env_disk_full good_frame ''python'' True w =
     (Inl (OSError ''No space left on device''),
      w\<lparr>trace := trace w @ [SaveFig ''static/chart.png'']\<rparr>)"
  by (simp add: save_chart_def getitem_def labelled_def good_frame_def Let_def env_disk_full_def)

lemma good_frame_guard: "\<not> frame_empty good_frame \<and> has_column ''python'' good_frame"
  by (simp add: frame_empty_def has_column_def good_frame_def)

lemma index_second:
  "index env_second (post_keyword ''python'') world_init =
     (\<lparr>page_results = Some \<lparr>demo_notice = False, date_column = DateCol [86400, 172800],
                            interest_column = NumCol [Some 3, Some 5]\<rparr>,
       page_error = None\<rparr>,
      \<lparr>trace = [NewClient, Queried ''python'' ''now 7-d'', Queried ''python'' ''today 1-m'',
                SaveFig ''static/chart.png''],
       last_request_time = 104, rand_pos = 0,
       chart_png = Some \<lparr>chart_title = plot_title True ''python'',
                          chart_x = DateCol [86400, 172800],
                          chart_y = Series (NumCol [Some 3, Some 5])\<rparr>\<rparr>)"
proof -
  have w: "after_wait env_second world_init = world_init"
    by (rule no_wait_init) (simp add: env_second_def)
  have s: "savefig_fails env_second tr = None" for tr
    by (simp add: env_second_def)
  have t: "index_try env_second ''python'' world_init =
     (Inr (Some \<lparr>demo_notice = False, date_column = DateCol [86400, 172800],
                 interest_column = NumCol [Some 3, Some 5]\<rparr>, None),
      \<lparr>trace = [NewClient, Queried ''python'' ''now 7-d'', Queried ''python'' ''today 1-m'',
                SaveFig ''static/chart.png''],
       last_request_time = 104, rand_pos = 0,
       chart_png = Some \<lparr>chart_title = plot_title True ''python'',
                          chart_x = DateCol [86400, 172800],
                          chart_y = Series (NumCol [Some 3, Some 5])\<rparr>\<rparr>)"
    by (simp add: index_try_unfold w fetch_second good_frame_guard save_chart_good s
          recent_table_good)
       (simp add: world_init_def env_second_def)
  have k: "strip (form_get [(''keyword'', ''python'')] ''keyword'' []) = ''python''"
    by (simp add: form_get_def strip_def unicode_spaces_def)
  show ?thesis
    by (simp add: index_def k t Let_def post_keyword_def)
qed

lemma index_disk_full:
  "index env_disk_full (post_keyword ''python'') world_init =
     (\<lparr>page_results = None,
       page_error = Some (processing_error (OSError ''No space left on device''))\<rparr>,
      \<lparr>trace = [NewClient, Queried ''python'' ''now 7-d'', SaveFig ''static/chart.png''],
       last_request_time = 0, rand_pos = 0, chart_png = None\<rparr>)"
proof -
  have w: "after_wait env_disk_full world_init = world_init"
    by (rule no_wait_init) (simp add: env_disk_full_def)
  have t: "index_try env_disk_full ''python'' world_init =
     (Inl (OSError ''No space left on device''),
      \<lparr>trace = [NewClient, Queried ''python'' ''now 7-d'', SaveFig ''static/chart.png''],
       last_request_time = 0, rand_pos = 0, chart_png = None\<rparr>)"
    by (simp add: index_try_unfold w fetch_disk_full good_frame_guard save_chart_disk_full)
       (simp add: world_init_def)
  have k: "strip (form_get [(''keyword'', ''python'')] ''keyword'' []) = ''python''"
    by (simp add: form_get_def strip_def unicode_spaces_def)
  show ?thesis
    by (simp add: index_def k t Let_def post_keyword_def)
qed

lemma wall_second: "wall env_second tr = 100 + real (length tr)"
  by (simp add: env_second_def)

lemma wall_disk_full: "wall env_disk_full tr = 100 + real (length tr)"
  by (simp add: env_disk_full_def)

lemma analyze_found_second:
  "analyze_found env_second good_frame ''python'' tf True w =
     (Inr \<lparr>r_dates = [1, 2], r_values = [3, 5], r_timeframe_used = tf,
           r_keyword = ''python'', r_is_demo_data = False\<rparr>,
      w\<lparr>trace := trace w @ [SaveFig ''static/chart.png''],
        chart_png := Some \<lparr>chart_title = plot_title True ''python'',
                           chart_x = DateCol [86400, 172800],
                           chart_y = Series (NumCol [Some 3, Some 5])\<rparr>,
        last_request_time := 100 + real (Suc (length (trace w)))\<rparr>)"
proof -
  have s: "savefig_fails env_second (trace w) = None"
    by (simp add: env_second_def)
  show ?thesis
    by (simp add: analyze_found_def save_chart_good [OF s])
       (simp add: time_time_def wall_second good_frame_def getitem_def labelled_def date_of_def day_def)
qed

lemma analyze_found_disk_full:
  "analyze_found env_disk_full good_frame ''python'' tf True w =
     (Inl (OSError ''No space left on device''),
      w\<lparr>trace := trace w @ [SaveFig ''static/chart.png'']\<rparr>)"
  by (simp add: analyze_found_def save_chart_disk_full)

lemma analyze_second:
  "analyze env_second (post_keyword ''python'') world_init =
     ((Result \<lparr>r_dates = [1, 2], r_values = [3, 5], r_timeframe_used = ''today 1-m'',
               r_keyword = ''python'', r_is_demo_data = False\<rparr>, 200),
      \<lparr>trace = [NewClient, Queried ''python'' ''now 7-d'', Queried ''python'' ''today 1-m'',
                SaveFig ''static/chart.png''],
       last_request_time = 104, rand_pos = 0,
       chart_png = Some \<lparr>chart_title = plot_title True ''python'',
                          chart_x = DateCol [86400, 172800],
                          chart_y = Series (NumCol [Some 3, Some 5])\<rparr>\<rparr>)"
proof -
  have w: "after_wait env_second world_init = world_init"
    by (rule no_wait_init) (simp add: env_second_def)
  show ?thesis
    by (simp add: analyze_def analyze_try_unfold posted_python w fetch_second good_frame_guard
          analyze_found_second)
       (simp add: world_init_def)
qed

lemma analyze_disk_full:
  "analyze env_disk_full (post_keyword ''python'') world_init =
     ((Error (server_error (OSError ''No space left on device'')), 500),
      \<lparr>trace = [NewClient, Queried ''python'' ''now 7-d'', SaveFig ''static/chart.png''],
       last_request_time = 0, rand_pos = 0, chart_png = None\<rparr>)"
proof -
  have w: "after_wait env_disk_full world_init = world_init"
    by (rule no_wait_init) (simp add: env_disk_full_def)
  show ?thesis
    by (simp add: analyze_def analyze_try_unfold posted_python w fetch_disk_full
          good_frame_guard analyze_found_disk_full)
       (simp add: world_init_def)
qed

lemma wall_down: "wall env_down tr = 100 + real (length tr)"
  by (simp add: env_down_def)

text \<open>
  On a console that takes every line the fetcher always returns its triple.
\<close>

lemma get_trends_data_total:
  "\<exists>data timeframe is_real. fst (get_trends_data E keyword w) = Inr (data, timeframe, is_real)"
proof (cases "client_fails E (trace w)")
  case (Some e)
  then show ?thesis
    using fallback_total [of E keyword "w\<lparr>trace := trace w @ [NewClient]\<rparr>"]
    by (auto simp: get_trends_data_def Let_def)
next
  case None
  obtain r w1 where t: "try_timeframes E keyword timeframes (w\<lparr>trace := trace w @ [NewClient]\<rparr>) = (r, w1)"
    by (cases "try_timeframes E keyword timeframes (w\<lparr>trace := trace w @ [NewClient]\<rparr>)")
  show ?thesis
  proof (cases r)
    case None' : None
    obtain data where "fst (generate_demo_data E keyword w1) = Inr data"
      using generate_demo_data_total by blast
    then show ?thesis
      using None None' t
      by (auto simp: get_trends_data_def Let_def split: prod.splits sum.splits)
  next
    case (Some p)
    then show ?thesis
      using None t by (auto simp: get_trends_data_def Let_def split: prod.splits)
  qed
qed

text \<open>
  The candidates are tried in the order \<^verbatim>\<open>now 7-d\<close>, \<^verbatim>\<open>today 1-m\<close>,
  \<^verbatim>\<open>today 3-m\<close>. A frame passes the test of line 60 exactly when it is not empty,
  exactly one column carries the keyword's label, and the sum of that column is
  positive. When the candidates before the \<open>i\<close>-th were not accepted and the \<open>i\<close>-th
  is, the function returns that frame with that window's label and the flag for real
  data, and the queries it made are the first \<open>i + 1\<close> candidates and no more.
\<close>

lemma first_accepted_timeframe_returns:
  assumes "client_fails E (trace w) = None"
    and "i < length timeframes"
    and "\<forall>j<i. \<not> candidate_accepted E keyword
           (trace w @ NewClient # map (Queried keyword) (take j timeframes)) (timeframes ! j)"
    and "provider E (trace w @ NewClient # map (Queried keyword) (take i timeframes))
           keyword (timeframes ! i) = Inr data"
    and "accepted keyword data = Inr True"
  shows "timeframes = [''now 7-d'', ''today 1-m'', ''today 3-m''] \<and>
         (accepted keyword data' = Inr True \<longleftrightarrow>
            \<not> frame_empty data' \<and> has_column keyword data' \<and>
            (\<exists>c s. getitem data' keyword = Inr (Series c) \<and> col_sum c = Inr s \<and> 0 < s)) \<and>
         get_trends_data E keyword w =
           (Inr (data, timeframes ! i, True),
            w\<lparr>trace := trace w @ NewClient # map (Queried keyword) (take (Suc i) timeframes)\<rparr>)"
proof -
  let ?w0 = "w\<lparr>trace := trace w @ [NewClient]\<rparr>"
  have "try_timeframes E keyword timeframes ?w0 =
          (Some (data, timeframes ! i),
           ?w0\<lparr>trace := trace ?w0 @ map (Queried keyword) (take (Suc i) timeframes)\<rparr>)"
    using assms by (intro try_timeframes_first) simp_all
  then have "get_trends_data E keyword w =
           (Inr (data, timeframes ! i, True),
            w\<lparr>trace := trace w @ NewClient # map (Queried keyword) (take (Suc i) timeframes)\<rparr>)"
    using assms(1) by (simp add: get_trends_data_def Let_def)
  then show ?thesis
    using accepted_iff [of keyword data'] by (simp add: timeframes_def)
qed

lemma first_accepted_timeframe_example:
  "\<not> candidate_accepted env_second ''python'' [NewClient] ''now 7-d'' \<and>
   accepted ''python'' good_frame = Inr True \<and>
   accepted ''python'' zero_frame \<noteq> Inr True \<and>
   get_trends_data env_second ''python'' world_init =
     (Inr (good_frame, ''today 1-m'', True),
      world_init\<lparr>trace := [NewClient, Queried ''python'' ''now 7-d'',
                            Queried ''python'' ''today 1-m'']\<rparr>)"
proof -
  have h1: "client_fails env_second (trace world_init) = None"
    by (simp add: env_second_def)
  have h2: "1 < length timeframes"
    by (simp add: timeframes_def)
  have h3: "\<forall>j<1. \<not> candidate_accepted env_second ''python''
           (trace world_init @ NewClient # map (Queried ''python'') (take j timeframes))
           (timeframes ! j)"
    by (simp add: candidate_accepted_def env_second_def timeframes_def accepted_def
          frame_empty_def empty_frame_def)
  have h4: "provider env_second
           (trace world_init @ NewClient # map (Queried ''python'') (take 1 timeframes))
           ''python'' (timeframes ! 1) = Inr good_frame"
    by (simp add: env_second_def timeframes_def)
  have h5: "accepted ''python'' good_frame = Inr True"
    by (simp add: accepted_def frame_empty_def has_column_def getitem_def labelled_def good_frame_def)
  have z: "accepted ''python'' zero_frame \<noteq> Inr True"
    using first_accepted_timeframe_returns [OF h1 h2 h3 h4 h5, of zero_frame]
    by (simp add: getitem_def labelled_def zero_frame_def)
  have c: "\<not> candidate_accepted env_second ''python'' [NewClient] ''now 7-d''"
    using h3 by (simp add: timeframes_def world_init_def)
  show ?thesis
    using first_accepted_timeframe_returns [OF h1 h2 h3 h4 h5, of good_frame] h5 z c
    by (simp add: timeframes_def world_init_def)
qed

section \<open>Properties of the fetcher with its console\<close>

lemma inner_handler_quiet:
  "\<forall>line. out line = None \<Longrightarrow> inner_handler out timeframe e = Inr ()"
  by (simp add: inner_handler_def)

lemma attempt_quiet:
  assumes "\<forall>line. out line = None"
  shows "attempt out E keyword timeframe w =
           (case provider E (trace w) keyword timeframe of
              Inl e \<Rightarrow> (Inr None, w\<lparr>trace := trace w @ [Queried keyword timeframe]\<rparr>)
            | Inr data \<Rightarrow>
                (case accepted keyword data of
                   Inl e \<Rightarrow> (Inr None, w\<lparr>trace := trace w @ [Queried keyword timeframe]\<rparr>)
                 | Inr True \<Rightarrow>
                     (Inr (Some data), w\<lparr>trace := trace w @ [Queried keyword timeframe]\<rparr>)
                 | Inr False \<Rightarrow>
                     (Inr None, w\<lparr>trace := trace w @ [Queried keyword timeframe]\<rparr>)))"
  using assms
  by (simp add: attempt_def inner_handler_quiet Let_def split: sum.splits bool.splits)

lemma try_timeframes_logged_quiet:
  assumes "\<forall>line. out line = None"
  shows "try_timeframes_logged out E keyword tfs w =
           (Inr (fst (try_timeframes E keyword tfs w)), snd (try_timeframes E keyword tfs w))"
proof (induction tfs arbitrary: w)
  case Nil
  show ?case by simp
next
  case (Cons tf tfs)
  show ?case
    by (simp add: attempt_quiet [OF assms] Cons.IH Let_def split: sum.splits bool.splits)
qed

text \<open>
  On a console that takes every line, the fetcher with its console is the fetcher
  without.
\<close>

lemma get_trends_data_logged_quiet:
  assumes "\<forall>line. out line = None"
  shows "get_trends_data_logged out E keyword w = get_trends_data E keyword w"
proof -
  let ?w0 = "w\<lparr>trace := trace w @ [NewClient]\<rparr>"
  obtain r w1 where t: "try_timeframes E keyword timeframes ?w0 = (r, w1)"
    by (cases "try_timeframes E keyword timeframes ?w0")
  have o: "outer_handler out E keyword e w' = fallback E keyword w'" for e w'
    using assms by (simp add: outer_handler_def)
  show ?thesis
    using assms t
    by (simp add: get_trends_data_logged_def get_trends_data_def Let_def o
          try_timeframes_logged_quiet [OF assms]
          split: option.splits prod.splits sum.splits)
qed

lemma outer_handler_raises:
  assumes "fst (outer_handler out E keyword e0 w) = Inl e"
  shows "out (all_failed_message e0) = Some e"
proof (cases "out (all_failed_message e0)")
  case None
  then have "fst (outer_handler out E keyword e0 w) = fst (fallback E keyword w)"
    by (simp add: outer_handler_def)
  then show ?thesis
    using assms fallback_total [of E keyword w] by auto
next
  case (Some e')
  then show ?thesis
    using assms by (simp add: outer_handler_def)
qed

lemma ascii_refuses_all_failed:
  "ascii_console (all_failed_message e) =
     Some (UnicodeEncodeError ''ascii codec cannot encode character'')"
  by (simp add: ascii_console_def all_failed_message_def)

lemma ascii_refuses_failed:
  "ascii_console (failed_message timeframe e) =
     Some (UnicodeEncodeError ''ascii codec cannot encode character'')"
  by (simp add: ascii_console_def failed_message_def)

lemma ascii_refuses_success:
  "ascii_console success_message =
     Some (UnicodeEncodeError ''ascii codec cannot encode character'')"
  by (simp add: ascii_console_def success_message_def)

lemma ascii_takes_trying:
  "ascii_console (trying_message ''now 7-d'') = None"
  "ascii_console (trying_message ''today 1-m'') = None"
  by (simp_all add: ascii_console_def trying_message_def)

lemma partial_frame_raises:
  "accepted ''isPartial'' partial_frame =
     Inl (ValueError ''The truth value of a Series is ambiguous'')"
  by (simp add: accepted_def frame_empty_def has_column_def getitem_def labelled_def
        partial_frame_def)

section \<open>The claims of the specification\<close>

text \<open>
  Claim C1, as amended. No failure of the provider leaves \<^verbatim>\<open>get_trends_data\<close>: for
  every keyword, every state, every behaviour of the provider (a client that cannot be
  built, queries that raise) and every console, the function returns a triple of a
  frame, a window label and the flag that tells real data from synthetic data, unless
  the print of its outer handler (line 73) raises. The only exception that can leave
  the function is one that this print raised.
\<close>

theorem provider_failures_never_escape:
  "((\<forall>e0. out (all_failed_message e0) = None) \<longrightarrow>
      (\<exists>data timeframe is_real.
         fst (get_trends_data_logged out E keyword w) = Inr (data, timeframe, is_real))) \<and>
   (fst (get_trends_data_logged out E keyword w) = Inl e \<longrightarrow>
      (\<exists>e0. out (all_failed_message e0) = Some e))"
proof -
  let ?w0 = "w\<lparr>trace := trace w @ [NewClient]\<rparr>"
  have raised: "\<exists>e0. out (all_failed_message e0) = Some e'"
    if r: "fst (get_trends_data_logged out E keyword w) = Inl e'" for e'
  proof (cases "client_fails E (trace w)")
    case (Some e0)
    then have "fst (outer_handler out E keyword e0 ?w0) = Inl e'"
      using r by (simp add: get_trends_data_logged_def Let_def)
    then show ?thesis
      using outer_handler_raises by blast
  next
    case None
    obtain t w1 where t: "try_timeframes_logged out E keyword timeframes ?w0 = (t, w1)"
      by (cases "try_timeframes_logged out E keyword timeframes ?w0")
    obtain g w2 where g: "generate_demo_data E keyword w1 = (g, w2)"
      by (cases "generate_demo_data E keyword w1")
    obtain data where d: "g = Inr data"
      using generate_demo_data_total [of E keyword w1] g by auto
    have "\<exists>e0 w'. fst (outer_handler out E keyword e0 w') = Inl e'"
      using r None t g d
      by (auto simp: get_trends_data_logged_def Let_def
            split: sum.splits option.splits prod.splits)
    then show ?thesis
      using outer_handler_raises by blast
  qed
  have returned: "\<exists>data timeframe is_real.
         fst (get_trends_data_logged out E keyword w) = Inr (data, timeframe, is_real)"
    if q: "\<forall>e0. out (all_failed_message e0) = None"
  proof (cases "fst (get_trends_data_logged out E keyword w)")
    case (Inl e')
    then show ?thesis
      using raised [of e'] q by auto
  next
    case (Inr p)
    then show ?thesis
      by (cases p) auto
  qed
  show ?thesis
    using raised [of e] returned by blast
qed

theorem provider_failures_never_escape_witness:
  "(\<exists>data timeframe is_real.
      fst (get_trends_data_logged utf8_console env_down ''python'' world_init) =
        Inr (data, timeframe, is_real)) \<and>
   (\<exists>data timeframe is_real.
      fst (get_trends_data_logged utf8_console env_failing ''python'' world_init) =
        Inr (data, timeframe, is_real)) \<and>
   (\<exists>e0. ascii_console (all_failed_message e0) =
      Some (UnicodeEncodeError ''ascii codec cannot encode character''))"
proof -
  have q: "\<forall>e0. utf8_console (all_failed_message e0) = None"
    by (simp add: utf8_console_def)
  have r: "fst (get_trends_data_logged ascii_console env_down ''python'' world_init) =
             Inl (UnicodeEncodeError ''ascii codec cannot encode character'')"
    by (simp add: get_trends_data_logged_def Let_def env_down_def outer_handler_def
          ascii_refuses_all_failed)
  show ?thesis
    using provider_failures_never_escape [of utf8_console env_down "''python''" world_init]
          provider_failures_never_escape [of utf8_console env_failing "''python''" world_init]
          provider_failures_never_escape [of ascii_console env_down "''python''" world_init
            "UnicodeEncodeError ''ascii codec cannot encode character''"]
          q r
    by blast
qed

text \<open>
  Claim C1 as stated fails on a console whose encoding is ASCII. With the client down,
  the print of line 73 raises inside the outer handler. With the provider answering,
  the print of line 61 raises, then the print of line 64 in the inner handler, then the
  print of line 73 in the outer handler: each time a \<^verbatim>\<open>UnicodeEncodeError\<close> leaves
  the function.
\<close>

theorem get_trends_data_raises_on_ascii_console:
  "fst (get_trends_data_logged ascii_console env_down ''python'' world_init) =
     Inl (UnicodeEncodeError ''ascii codec cannot encode character'') \<and>
   fst (get_trends_data_logged ascii_console env_second ''python'' world_init) =
     Inl (UnicodeEncodeError ''ascii codec cannot encode character'')"
proof -
  have down: "fst (get_trends_data_logged ascii_console env_down ''python'' world_init) =
     Inl (UnicodeEncodeError ''ascii codec cannot encode character'')"
    by (simp add: get_trends_data_logged_def Let_def env_down_def outer_handler_def
          ascii_refuses_all_failed)
  have first: "attempt ascii_console env_second ''python'' ''now 7-d'' w =
     (Inr None, w\<lparr>trace := trace w @ [Queried ''python'' ''now 7-d'']\<rparr>)" for w
    by (simp add: attempt_def ascii_takes_trying env_second_def empty_frame_rejected Let_def)
  have second: "attempt ascii_console env_second ''python'' ''today 1-m'' w =
     (Inl (UnicodeEncodeError ''ascii codec cannot encode character''),
      w\<lparr>trace := trace w @ [Queried ''python'' ''today 1-m'']\<rparr>)" for w
    by (simp add: attempt_def ascii_takes_trying env_second_def good_frame_accepted Let_def
          ascii_refuses_success inner_handler_def ascii_refuses_failed)
  have c: "client_fails env_second tr = None" for tr
    by (simp add: env_second_def)
  have "fst (get_trends_data_logged ascii_console env_second ''python'' world_init) =
     Inl (UnicodeEncodeError ''ascii codec cannot encode character'')"
    by (simp add: get_trends_data_logged_def Let_def c timeframes_def first second
          outer_handler_def ascii_refuses_all_failed)
  then show ?thesis
    using down by simp
qed

text \<open>
  Claim C2, at the keyword \<^verbatim>\<open>isPartial\<close>. The provider's client answers with the
  keyword's column and its own column \<^verbatim>\<open>isPartial\<close>: the frame is not empty, has the
  keyword's label, and the interest sums to 8. Two columns carry the label, so the test
  of line 60 raises at every candidate, the inner handler swallows it, and after three
  queries the function returns demo data where the claim has the first candidate
  accepted and returned as real data. For a frame in which one column carries the
  keyword's label, \<open>first_accepted_timeframe_returns\<close> gives the claim.
\<close>

theorem keyword_isPartial_is_never_accepted:
  "\<not> frame_empty partial_frame \<and> has_column ''isPartial'' partial_frame \<and>
   map col_sum (labelled partial_frame ''isPartial'') = [Inr 8, Inr 0] \<and>
   accepted ''isPartial'' partial_frame =
     Inl (ValueError ''The truth value of a Series is ambiguous'') \<and>
   (\<exists>data w'. get_trends_data env_partial ''isPartial'' world_init =
                 (Inr (data, ''demo (last 3 months)'', False), w') \<and>
               trace w' = [NewClient, Queried ''isPartial'' ''now 7-d'',
                           Queried ''isPartial'' ''today 1-m'',
                           Queried ''isPartial'' ''today 3-m''])"
proof -
  have f: "\<not> frame_empty partial_frame \<and> has_column ''isPartial'' partial_frame \<and>
     map col_sum (labelled partial_frame ''isPartial'') = [Inr 8, Inr 0]"
    by (simp add: frame_empty_def has_column_def labelled_def partial_frame_def)
  let ?w1 = "world_init\<lparr>trace := [NewClient, Queried ''isPartial'' ''now 7-d'',
                           Queried ''isPartial'' ''today 1-m'',
                           Queried ''isPartial'' ''today 3-m'']\<rparr>"
  have t: "try_timeframes env_partial ''isPartial'' timeframes
             (world_init\<lparr>trace := trace world_init @ [NewClient]\<rparr>) = (None, ?w1)"
    by (simp add: timeframes_def env_partial_def partial_frame_raises Let_def world_init_def)
  obtain data where d: "fst (generate_demo_data env_partial ''isPartial'' ?w1) = Inr data"
    using generate_demo_data_total by blast
  have w: "snd (generate_demo_data env_partial ''isPartial'' ?w1) =
             ?w1\<lparr>rand_pos := rand_pos ?w1 + 91\<rparr>"
    by (rule generate_demo_data_world)
  have c: "client_fails env_partial (trace world_init) = None"
    by (simp add: env_partial_def)
  have "get_trends_data env_partial ''isPartial'' world_init =
          (Inr (data, ''demo (last 3 months)'', False), ?w1\<lparr>rand_pos := rand_pos ?w1 + 91\<rparr>)"
    using c t d w
    by (auto simp: get_trends_data_def Let_def demo_label_def split: prod.splits sum.splits)
  then have "\<exists>data w'. get_trends_data env_partial ''isPartial'' world_init =
                 (Inr (data, ''demo (last 3 months)'', False), w') \<and>
               trace w' = [NewClient, Queried ''isPartial'' ''now 7-d'',
                           Queried ''isPartial'' ''today 1-m'',
                           Queried ''isPartial'' ''today 3-m'']"
    by simp
  then show ?thesis
    using f partial_frame_raises by blast
qed



text \<open>
  Claim C4, at the keyword \<^verbatim>\<open>date\<close>. The dict display of line 37 has the key
  \<^verbatim>\<open>'date'\<close> twice, so the values replace the dates, and \<^verbatim>\<open>set_index\<close>
  moves that one column into the index: the frame returned has the 91 values as its
  index, no dates and no value column. For every other keyword \<open>demo_data_shape\<close>
  gives the 91 daily points and the values the claim describes.
\<close>

theorem demo_data_for_keyword_date:
  "fst (generate_demo_data E ''date'' w) =
     Inr \<lparr>index_name = Some ''date'',
          row_index = NumCol (map (\<lambda>i. Some (max 10 (base_trend ! (i mod 15)
                 + (- 10 + int (rand_src E (rand_pos w + i) mod 21))))) [0..<91]),
          columns = []\<rparr>"
proof -
  obtain vs w' where l: "demo_loop E [0..<91] [] w = (vs, w')"
    by (cases "demo_loop E [0..<91] [] w")
  have z: "zip [0..<91] [0..<91] = map (\<lambda>i. (i, i)) [0..<91]"
    by (simp add: zip_same_conv_map)
  have vs: "vs = map (\<lambda>i. max 10 (base_trend ! (i mod 15)
                 + (- 10 + int (rand_src E (rand_pos w + i) mod 21)))) [0..<91]"
    using demo_loop_values [of E "[0..<91]" "[]" w] l by (simp add: z comp_def)
  show ?thesis
    by (simp add: generate_demo_data_def Let_def date_range_90 l pd_DataFrame_def
          set_index_def vs comp_def)
qed

text \<open>
  Claim C5, as amended. The page handler stores the current time as the time of the
  last request when its pipeline ends without an exception, whether it shows a table or
  the message that no data was found; the analyze handler stores it when it answers
  with status 200. When an exception leaves the pipeline (the chart cannot be written,
  say) the stored time stays as it was, as it does for a request without a keyword, for
  a request that is no POST, and for the health check.
\<close>

theorem timestamp_set_when_handler_completes:
  "(http_method req = ''POST'' \<and> posted_keyword req \<noteq> [] \<longrightarrow>
      (page_results (fst (index E req w)) \<noteq> None \<or>
       page_error (fst (index E req w)) = Some (no_data_error (posted_keyword req)) \<longrightarrow>
         last_request_time (snd (index E req w)) = wall E (trace (snd (index E req w)))) \<and>
      ((\<exists>e. page_error (fst (index E req w)) = Some (processing_error e)) \<longrightarrow>
         last_request_time (snd (index E req w)) = last_request_time w) \<and>
      (page_results (fst (index E req w)) \<noteq> None \<or>
       page_error (fst (index E req w)) = Some (no_data_error (posted_keyword req)) \<or>
       (\<exists>e. page_error (fst (index E req w)) = Some (processing_error e)))) \<and>
   (http_method req \<noteq> ''POST'' \<or> posted_keyword req = [] \<longrightarrow> snd (index E req w) = w) \<and>
   (snd (fst (analyze E req w)) = 200 \<longrightarrow>
      last_request_time (snd (analyze E req w)) = wall E (trace (snd (analyze E req w)))) \<and>
   (snd (fst (analyze E req w)) = 400 \<or> snd (fst (analyze E req w)) = 500 \<longrightarrow>
      last_request_time (snd (analyze E req w)) = last_request_time w) \<and>
   snd (test_endpoint E w) = w"
proof -
  have idx: "http_method req = ''POST'' \<and> posted_keyword req \<noteq> [] \<longrightarrow>
      (page_results (fst (index E req w)) \<noteq> None \<or>
       page_error (fst (index E req w)) = Some (no_data_error (posted_keyword req)) \<longrightarrow>
         last_request_time (snd (index E req w)) = wall E (trace (snd (index E req w)))) \<and>
      ((\<exists>e. page_error (fst (index E req w)) = Some (processing_error e)) \<longrightarrow>
         last_request_time (snd (index E req w)) = last_request_time w) \<and>
      (page_results (fst (index E req w)) \<noteq> None \<or>
       page_error (fst (index E req w)) = Some (no_data_error (posted_keyword req)) \<or>
       (\<exists>e. page_error (fst (index E req w)) = Some (processing_error e)))"
  proof (intro impI)
    assume a: "http_method req = ''POST'' \<and> posted_keyword req \<noteq> []"
    let ?k = "posted_keyword req"
    obtain r w' where t: "index_try E ?k w = (r, w')"
      by (cases "index_try E ?k w")
    have i: "index E req w =
       (case r of
          Inl e \<Rightarrow> (\<lparr>page_results = None, page_error = Some (processing_error e)\<rparr>, w')
        | Inr (results, error) \<Rightarrow> (\<lparr>page_results = results, page_error = error\<rparr>, w'))"
      using a t by (simp add: index_def posted_keyword_def Let_def)
    show "(page_results (fst (index E req w)) \<noteq> None \<or>
       page_error (fst (index E req w)) = Some (no_data_error (posted_keyword req)) \<longrightarrow>
         last_request_time (snd (index E req w)) = wall E (trace (snd (index E req w)))) \<and>
      ((\<exists>e. page_error (fst (index E req w)) = Some (processing_error e)) \<longrightarrow>
         last_request_time (snd (index E req w)) = last_request_time w) \<and>
      (page_results (fst (index E req w)) \<noteq> None \<or>
       page_error (fst (index E req w)) = Some (no_data_error (posted_keyword req)) \<or>
       (\<exists>e. page_error (fst (index E req w)) = Some (processing_error e)))"
      using index_try_cases [of E ?k w] t
      by (auto simp: i error_messages_differ error_messages_differ [symmetric])
  qed
  have get: "http_method req \<noteq> ''POST'' \<or> posted_keyword req = [] \<longrightarrow> snd (index E req w) = w"
    by (auto simp: index_def posted_keyword_def)
  obtain r w' where t: "analyze_try E req w = (r, w')"
    by (cases "analyze_try E req w")
  have an: "(snd (fst (analyze E req w)) = 200 \<longrightarrow>
      last_request_time (snd (analyze E req w)) = wall E (trace (snd (analyze E req w)))) \<and>
   (snd (fst (analyze E req w)) = 400 \<or> snd (fst (analyze E req w)) = 500 \<longrightarrow>
      last_request_time (snd (analyze E req w)) = last_request_time w)"
    using analyze_try_cases [of E req w] t
    by (auto simp: analyze_def)
  show ?thesis
    using idx get an by (simp add: test_endpoint_def)
qed

theorem timestamp_set_when_handler_completes_witness:
  "page_results (fst (index env_second (post_keyword ''python'') world_init)) \<noteq> None \<and>
   last_request_time (snd (index env_second (post_keyword ''python'') world_init)) = 104 \<and>
   snd (fst (analyze env_second (post_keyword ''python'') world_init)) = 200 \<and>
   last_request_time (snd (analyze env_second (post_keyword ''python'') world_init)) = 104 \<and>
   page_error (fst (index env_disk_full (post_keyword ''python'') world_init)) =
     Some (processing_error (OSError ''No space left on device'')) \<and>
   last_request_time (snd (index env_disk_full (post_keyword ''python'') world_init)) = 0 \<and>
   snd (fst (analyze env_disk_full (post_keyword ''python'') world_init)) = 500 \<and>
   last_request_time (snd (analyze env_disk_full (post_keyword ''python'') world_init)) = 0 \<and>
   snd (fst (analyze env_second (post_keyword ''  '') world_init)) = 400 \<and>
   last_request_time (snd (analyze env_second (post_keyword ''  '') world_init)) = 0"
proof -
  have m: "http_method (post_keyword ''python'') = ''POST''"
    by (simp add: post_keyword_def)
  have p1: "page_results (fst (index env_second (post_keyword ''python'') world_init)) \<noteq> None"
    by (simp add: index_second)
  have t1: "wall env_second (trace (snd (index env_second (post_keyword ''python'') world_init)))
            = 104"
    by (simp add: index_second wall_second)
  have s2: "snd (fst (analyze env_second (post_keyword ''python'') world_init)) = 200"
    by (simp add: analyze_second)
  have t2: "wall env_second (trace (snd (analyze env_second (post_keyword ''python'') world_init)))
            = 104"
    by (simp add: analyze_second wall_second)
  have p3: "page_error (fst (index env_disk_full (post_keyword ''python'') world_init)) =
     Some (processing_error (OSError ''No space left on device''))"
    by (simp add: index_disk_full)
  have s4: "snd (fst (analyze env_disk_full (post_keyword ''python'') world_init)) = 500"
    by (simp add: analyze_disk_full)
  have s5: "snd (fst (analyze env_second (post_keyword ''  '') world_init)) = 400"
    by (simp add: analyze_def analyze_try_unfold posted_blank)
  have l: "last_request_time world_init = 0"
    by (simp add: world_init_def)
  have k: "posted_keyword (post_keyword ''python'') \<noteq> []"
    by (simp add: posted_python)
  note second = timestamp_set_when_handler_completes
                  [of "post_keyword ''python''" env_second world_init]
  note disk_full = timestamp_set_when_handler_completes
                     [of "post_keyword ''python''" env_disk_full world_init]
  note blank = timestamp_set_when_handler_completes
                 [of "post_keyword ''  ''" env_second world_init]
  have a1: "last_request_time (snd (index env_second (post_keyword ''python'') world_init)) = 104"
    using second m k p1 t1 by auto
  have a2: "last_request_time (snd (analyze env_second (post_keyword ''python'') world_init)) = 104"
    using second s2 t2 by auto
  have a3: "last_request_time (snd (index env_disk_full (post_keyword ''python'') world_init)) = 0"
    using disk_full m k p3 l by auto
  have a4: "last_request_time (snd (analyze env_disk_full (post_keyword ''python'') world_init)) = 0"
    using disk_full s4 l by auto
  have a5: "last_request_time (snd (analyze env_second (post_keyword ''  '') world_init)) = 0"
    using blank s5 l by auto
  show ?thesis
    using p1 a1 s2 a2 p3 a3 s4 a4 s5 a5 by simp
qed

text \<open>
  Claim C5 as stated fails where the provider answers and the chart cannot be written:
  the fetch was made, and the stored time is still that of the start of the process.
\<close>

theorem timestamp_kept_when_chart_fails:
  "trace (snd (index env_disk_full (post_keyword ''python'') world_init)) =
     [NewClient, Queried ''python'' ''now 7-d'', SaveFig ''static/chart.png''] \<and>
   wall env_disk_full (trace (snd (index env_disk_full (post_keyword ''python'') world_init)))
     = 103 \<and>
   last_request_time (snd (index env_disk_full (post_keyword ''python'') world_init)) = 0 \<and>
   trace (snd (analyze env_disk_full (post_keyword ''python'') world_init)) =
     [NewClient, Queried ''python'' ''now 7-d'', SaveFig ''static/chart.png''] \<and>
   last_request_time (snd (analyze env_disk_full (post_keyword ''python'') world_init)) = 0"
  by (simp add: index_disk_full analyze_disk_full wall_disk_full)

text \<open>
  Claim C6. For a posted keyword that is not empty, both handlers first read the time
  elapsed since the last request; when it is less than 10 seconds they sleep once, for
  10 seconds minus the elapsed time, and otherwise not at all; only then the fetch
  begins (the client is built, time frames are queried, the chart may be saved).
\<close>

theorem rate_limiter_waits_before_fetch:
  assumes "http_method req = ''POST''" and "posted_keyword req \<noteq> []"
  shows "(\<exists>n saves. trace (snd (index E req w)) =
            trace w @ (if wall E (trace w) - last_request_time w < 10
                       then [Slept (10 - (wall E (trace w) - last_request_time w))] else [])
            @ NewClient # map (Queried (posted_keyword req)) (take n timeframes) @ saves \<and>
            (saves = [] \<or> saves = [SaveFig ''static/chart.png''])) \<and>
         (\<exists>n saves. trace (snd (analyze E req w)) =
            trace w @ (if wall E (trace w) - last_request_time w < 10
                       then [Slept (10 - (wall E (trace w) - last_request_time w))] else [])
            @ NewClient # map (Queried (posted_keyword req)) (take n timeframes) @ saves \<and>
            (saves = [] \<or> saves = [SaveFig ''static/chart.png'']))"
proof -
  have i: "snd (index E req w) = snd (index_try E (posted_keyword req) w)"
    using assms by (rule index_world)
  show ?thesis
    using index_try_trace [of E "posted_keyword req" w] analyze_try_trace [OF assms(2), of E w]
    by (simp add: i analyze_world after_wait_trace)
qed

theorem rate_limiter_waits_before_fetch_witness:
  "(\<exists>n saves. trace (snd (index env_second (post_keyword ''python'')
                             (world_init\<lparr>last_request_time := 96\<rparr>))) =
       Slept 6 # NewClient # map (Queried ''python'') (take n timeframes) @ saves \<and>
       (saves = [] \<or> saves = [SaveFig ''static/chart.png''])) \<and>
   (\<exists>n saves. trace (snd (analyze env_second (post_keyword ''python'')
                             (world_init\<lparr>last_request_time := 96\<rparr>))) =
       Slept 6 # NewClient # map (Queried ''python'') (take n timeframes) @ saves \<and>
       (saves = [] \<or> saves = [SaveFig ''static/chart.png''])) \<and>
   (\<exists>n saves. trace (snd (index env_second (post_keyword ''python'') world_init)) =
       NewClient # map (Queried ''python'') (take n timeframes) @ saves \<and>
       (saves = [] \<or> saves = [SaveFig ''static/chart.png''])) \<and>
   (\<exists>n saves. trace (snd (analyze env_second (post_keyword ''python'') world_init)) =
       NewClient # map (Queried ''python'') (take n timeframes) @ saves \<and>
       (saves = [] \<or> saves = [SaveFig ''static/chart.png'']))"
proof -
  have m: "http_method (post_keyword ''python'') = ''POST''"
    by (simp add: post_keyword_def)
  have k: "posted_keyword (post_keyword ''python'') \<noteq> []"
    by (simp add: posted_python)
  have l: "last_request_time world_init = 0"
    by (simp add: world_init_def)
  have t: "trace world_init = []" "trace (world_init\<lparr>last_request_time := 96\<rparr>) = []"
    by (simp_all add: world_init_def)
  show ?thesis
    using rate_limiter_waits_before_fetch
            [OF m k, of env_second "world_init\<lparr>last_request_time := 96\<rparr>"]
          rate_limiter_waits_before_fetch [OF m k, of env_second world_init]
    by (simp add: t l posted_python wall_second)
qed

text \<open>
  Claim C7. The analyze handler answers with the error body and status 400 when the
  posted keyword is missing or empty after stripping. Otherwise, with the frame the
  fetch returned: the error body and status 404 when the frame is empty or lacks the
  keyword's column; the error body and status 500 when drawing the chart or building
  the response raises; else status 200 and the dates, the values, the window label, the
  keyword and the flag for demo data.
\<close>

theorem analyze_responses:
  "(posted_keyword req = [] \<longrightarrow>
      fst (analyze E req w) = (Error ''Please enter a keyword'', 400)) \<and>
   (posted_keyword req \<noteq> [] \<and>
    get_trends_data E (posted_keyword req) (after_wait E w) = (Inr (data, tf, is_real), w2) \<longrightarrow>
      fst (analyze E req w) =
        (if frame_empty data \<or> \<not> has_column (posted_keyword req) data
         then (Error (not_found_error (posted_keyword req)), 404)
         else case fst (analyze_found E data (posted_keyword req) tf is_real w2) of
                Inl e \<Rightarrow> (Error (server_error e), 500)
              | Inr r \<Rightarrow> (Result r, 200)) \<and>
      (\<forall>r. fst (analyze_found E data (posted_keyword req) tf is_real w2) = Inr r \<longrightarrow>
         r_timeframe_used r = tf \<and> r_keyword r = posted_keyword req \<and>
         r_is_demo_data r = (\<not> is_real) \<and>
         index_dates (row_index data) = Inr (r_dates r) \<and>
         (\<exists>c. getitem data (posted_keyword req) = Inr (Series c) \<and>
              fillna_astype_int c = Inr (r_values r))))"
proof (intro conjI impI)
  assume "posted_keyword req = []"
  then show "fst (analyze E req w) = (Error ''Please enter a keyword'', 400)"
    by (simp add: analyze_def analyze_try_unfold)
next
  assume a: "posted_keyword req \<noteq> [] \<and>
    get_trends_data E (posted_keyword req) (after_wait E w) = (Inr (data, tf, is_real), w2)"
  then show "fst (analyze E req w) =
        (if frame_empty data \<or> \<not> has_column (posted_keyword req) data
         then (Error (not_found_error (posted_keyword req)), 404)
         else case fst (analyze_found E data (posted_keyword req) tf is_real w2) of
                Inl e \<Rightarrow> (Error (server_error e), 500)
              | Inr r \<Rightarrow> (Result r, 200))"
    by (auto simp: analyze_def analyze_try_unfold split: sum.splits selection.splits prod.splits)
next
  show "\<forall>r. fst (analyze_found E data (posted_keyword req) tf is_real w2) = Inr r \<longrightarrow>
         r_timeframe_used r = tf \<and> r_keyword r = posted_keyword req \<and>
         r_is_demo_data r = (\<not> is_real) \<and>
         index_dates (row_index data) = Inr (r_dates r) \<and>
         (\<exists>c. getitem data (posted_keyword req) = Inr (Series c) \<and>
              fillna_astype_int c = Inr (r_values r))"
    using analyze_found_fields [of E data "posted_keyword req" tf is_real w2] by blast
qed

theorem analyze_responses_witness:
  "fst (analyze env_second (post_keyword ''python'') world_init) =
     (Result \<lparr>r_dates = [1, 2], r_values = [3, 5], r_timeframe_used = ''today 1-m'',
              r_keyword = ''python'', r_is_demo_data = False\<rparr>, 200) \<and>
   fst (analyze env_disk_full (post_keyword ''python'') world_init) =
     (Error (server_error (OSError ''No space left on device'')), 500) \<and>
   fst (analyze env_second (post_keyword ''  '') world_init) =
     (Error ''Please enter a keyword'', 400)"
proof -
  have w: "after_wait env_second world_init = world_init"
    by (rule no_wait_init) (simp add: env_second_def)
  have w': "after_wait env_disk_full world_init = world_init"
    by (rule no_wait_init) (simp add: env_disk_full_def)
  have f1: "get_trends_data env_second (posted_keyword (post_keyword ''python''))
              (after_wait env_second world_init) =
            (Inr (good_frame, ''today 1-m'', True),
             world_init\<lparr>trace := trace world_init @ [NewClient, Queried ''python'' ''now 7-d'',
                             Queried ''python'' ''today 1-m'']\<rparr>)"
    by (simp add: posted_python w fetch_second)
  have f2: "get_trends_data env_disk_full (posted_keyword (post_keyword ''python''))
              (after_wait env_disk_full world_init) =
            (Inr (good_frame, ''now 7-d'', True),
             world_init\<lparr>trace := trace world_init @ [NewClient, Queried ''python'' ''now 7-d'']\<rparr>)"
    by (simp add: posted_python w' fetch_disk_full)
  have k: "posted_keyword (post_keyword ''python'') \<noteq> []"
    by (simp add: posted_python)
  have a1: "fst (analyze env_second (post_keyword ''python'') world_init) =
     (Result \<lparr>r_dates = [1, 2], r_values = [3, 5], r_timeframe_used = ''today 1-m'',
              r_keyword = ''python'', r_is_demo_data = False\<rparr>, 200)"
    using analyze_responses [of "post_keyword ''python''" env_second world_init] k f1
    by (simp add: posted_python good_frame_guard analyze_found_second)
  have a2: "fst (analyze env_disk_full (post_keyword ''python'') world_init) =
     (Error (server_error (OSError ''No space left on device'')), 500)"
    using analyze_responses [of "post_keyword ''python''" env_disk_full world_init] k f2
    by (simp add: posted_python good_frame_guard analyze_found_disk_full)
  have a3: "fst (analyze env_second (post_keyword ''  '') world_init) =
     (Error ''Please enter a keyword'', 400)"
    using analyze_responses [of "post_keyword ''  ''" env_second world_init] posted_blank
    by simp
  show ?thesis
    using a1 a2 a3 by simp
qed

text \<open>
  Claim C8. A POST to the page handler whose keyword is missing, empty or white space
  only is answered at once with the validation message: the world is unchanged, so
  nothing was slept, nothing fetched, the time of the last request is not updated and
  no chart is written.
\<close>

theorem index_empty_keyword_reports_immediately:
  assumes "http_method req = ''POST''" and "posted_keyword req = []"
  shows "index E req w =
           (\<lparr>page_results = None, page_error = Some ''Please enter a keyword to search.''\<rparr>, w)"
  using assms by (simp add: index_def posted_keyword_def)

theorem index_empty_keyword_reports_immediately_witness:
  "posted_keyword (post_keyword ''  '') = [] \<and>
   index env_second (post_keyword ''  '') world_init =
     (\<lparr>page_results = None, page_error = Some ''Please enter a keyword to search.''\<rparr>,
      world_init) \<and>
   index env_second \<lparr>http_method = ''POST'', form = []\<rparr> world_init =
     (\<lparr>page_results = None, page_error = Some ''Please enter a keyword to search.''\<rparr>,
      world_init)"
proof -
  have m: "http_method (post_keyword ''  '') = ''POST''"
    by (simp add: post_keyword_def)
  have m': "http_method \<lparr>http_method = ''POST'', form = []\<rparr> = ''POST''"
    by simp
  show ?thesis
    using index_empty_keyword_reports_immediately [OF m posted_blank, of env_second world_init]
          index_empty_keyword_reports_immediately [OF m' posted_missing, of env_second world_init]
          posted_blank
    by simp
qed

text \<open>
  Claim C9, at the keyword \<^verbatim>\<open>date\<close> with the provider down. The frame of the
  fallback is empty and has no column \<^verbatim>\<open>date\<close>, so the guard of the handlers
  fails: the analyze handler answers 404 and the page handler shows the message that
  no data was found. For every other keyword \<open>demo_data_passes_guard\<close> gives the
  claim.
\<close>

theorem fallback_for_keyword_date_fails_guard:
  "fst (analyze env_down (post_keyword ''date'') world_init) =
     (Error (not_found_error ''date''), 404) \<and>
   page_error (fst (index env_down (post_keyword ''date'') world_init)) =
     Some (no_data_error ''date'') \<and>
   (\<exists>data w'. get_trends_data env_down ''date'' world_init =
                 (Inr (data, ''demo (last 3 months)'', False), w') \<and>
               frame_empty data \<and> \<not> has_column ''date'' data)"
proof -
  have w: "after_wait env_down world_init = world_init"
    by (rule no_wait_init) (simp add: wall_down)
  obtain vs where f: "get_trends_data env_down ''date'' world_init =
     (Inr (\<lparr>index_name = Some ''date'', row_index = NumCol vs, columns = []\<rparr>,
           ''demo (last 3 months)'', False),
      world_init\<lparr>trace := trace world_init @ [NewClient], rand_pos := rand_pos world_init + 91\<rparr>)"
    using fetch_down_date [of world_init] by blast
  have g: "frame_empty \<lparr>index_name = Some ''date'', row_index = NumCol vs, columns = []\<rparr>"
          "\<not> has_column ''date'' \<lparr>index_name = Some ''date'', row_index = NumCol vs, columns = []\<rparr>"
    by (simp_all add: frame_empty_def has_column_def)
  have a: "fst (analyze env_down (post_keyword ''date'') world_init) =
     (Error (not_found_error ''date''), 404)"
    by (simp add: analyze_def analyze_try_unfold posted_date w f g)
  have k: "strip (form_get [(''keyword'', ''date'')] ''keyword'' []) = ''date''"
    by (simp add: form_get_def strip_def unicode_spaces_def)
  have i: "page_error (fst (index env_down (post_keyword ''date'') world_init)) =
     Some (no_data_error ''date'')"
    by (simp add: index_def post_keyword_def k Let_def index_try_unfold w f g)
  show ?thesis
    using a i f g by blast
qed

text \<open>
  Claim C10, at the keywords \<^verbatim>\<open>date\<close> and \<^verbatim>\<open>python\<close> on one clock and one random
  stream. The keyword \<^verbatim>\<open>date\<close> changes more than a column name: its frame has the
  values where the other has the dates, and no value column. For two keywords other
  than \<^verbatim>\<open>date\<close>, \<open>demo_data_keyword_independent\<close> gives the claim.
\<close>

theorem keyword_date_changes_generated_series:
  "\<exists>f g. fst (generate_demo_data E ''date'' w) = Inr f \<and>
         fst (generate_demo_data E ''python'' w) = Inr g \<and>
         row_index f \<noteq> row_index g \<and> columns f = [] \<and> columns g \<noteq> []"
proof -
  obtain vs where f: "fst (generate_demo_data E ''date'' w) =
      Inr \<lparr>index_name = Some ''date'', row_index = NumCol vs, columns = []\<rparr>"
    using demo_data_date by blast
  have p: "''python'' \<noteq> ''date''"
    by simp
  show ?thesis
    by (simp add: f demo_data_shape [OF p])
qed

end
